theory Spec2Isabelle
  imports Main
begin

section \<open>Python values, entities and the session\<close>

text \<open>
  A Python value as \<open>batch_fetch.py\<close> meets it: \<open>None\<close>, a column value, a reference
  to a mapped entity (an object of the session's identity map) or a list of values.
\<close>

datatype pyval = PNone | PInt int | PRef nat | PList "pyval list"

text \<open>
  The exceptions of the module and of the Python and ORM primitives it calls. The
  source raises plain \<open>Exception\<close> objects, told apart by their messages:
  \<open>NotARelationshipError\<close> is \<open>Exception('Given attribute is not a relationship property.')\<close>,
  \<open>UnknownPathSpecError\<close> is \<open>Exception('Unknown path type.')\<close> and
  \<open>IncompatibleFetcherError\<close> is the exception of \<open>CompositeFetcher.__init__\<close>.
  \<open>LazyLoadOutsideModel\<close> is not an exception: it marks the place where the ORM would
  run a lazy load of an attribute that is not in the instance dictionary, which this
  development does not describe.
\<close>

datatype error =
    IndexError | AttributeError | TypeError | KeyError | NotImplementedError
  | UnmappedInstanceError
  | NotARelationshipError | UnknownPathSpecError | IncompatibleFetcherError
  | LazyLoadOutsideModel

datatype direction = ONETOMANY | MANYTOONE | MANYTOMANY

text \<open>A table column: its name, its table and the tables its foreign keys point to.\<close>

record column =
  name :: string
  table :: string
  foreign_keys :: "string list"

text \<open>
  The fields of a \<open>RelationshipProperty\<close> that the module reads. \<open>local_columns\<close> and
  \<open>remote_side\<close> are sets in the ORM; they are lists here, in the order in which
  \<open>list(...)\<close> and \<open>for column in ...\<close> enumerate them. \<open>secondaryjoin\<close> is the join
  condition between the related table and the association table, an equality of a
  column of the related entity and a column of the association row.
\<close>

record relationship_property =
  key :: string
  mapper_class :: string
  secondary :: "string option"
  secondaryjoin :: "string \<times> string"
  direction :: direction
  local_columns :: "column list"
  remote_side :: "column list"
  back_populates :: "string option"

datatype property = ColumnProperty column | RelationshipProperty relationship_property

record entity =
  class_name :: string
  dict :: "string \<rightharpoonup> pyval"

text \<open>
  The session with its mapping configuration: the identity map, the rows of every
  mapped class in the order a query returns them, the rows of every association
  table, the mapped attributes of every class, the table and the primary key column
  of every class, and the number of queries executed so far.
\<close>

record session =
  identity_map :: "nat \<Rightarrow> entity"
  rows :: "string \<Rightarrow> nat list"
  secondary_rows :: "string \<Rightarrow> (string \<rightharpoonup> pyval) list"
  class_attrs :: "string \<Rightarrow> string \<rightharpoonup> property"
  class_table :: "string \<Rightarrow> string"
  primary_key :: "string \<Rightarrow> string"
  query_count :: nat

definition bindE :: "error + 'a \<Rightarrow> ('a \<Rightarrow> error + 'b) \<Rightarrow> error + 'b" where
  "bindE m f = (case m of Inl e \<Rightarrow> Inl e | Inr x \<Rightarrow> f x)"

text \<open>\<open>entity.__class__\<close>, also for a value that is no entity.\<close>

definition class_of :: "session \<Rightarrow> pyval \<Rightarrow> string" where
  "class_of s v =
     (case v of
        PRef i \<Rightarrow> class_name (identity_map s i)
      | PNone \<Rightarrow> ''NoneType''
      | PInt _ \<Rightarrow> ''int''
      | PList _ \<Rightarrow> ''list'')"

text \<open>
  \<open>getattr(cls, attr).property\<close>: only mapped attributes have a property; the built-in
  classes have none.
\<close>

definition getattr_class :: "session \<Rightarrow> string \<Rightarrow> string \<Rightarrow> error + property" where
  "getattr_class s c a =
     (case class_attrs s c a of None \<Rightarrow> Inl AttributeError | Some p \<Rightarrow> Inr p)"

text \<open>
  \<open>getattr(entity, attr)\<close>: the value in the instance dictionary; an attribute the
  class does not map raises \<open>AttributeError\<close>, as does every attribute name of this
  module on a value that is no entity.
\<close>

definition getattr_entity :: "session \<Rightarrow> pyval \<Rightarrow> string \<Rightarrow> error + pyval" where
  "getattr_entity s v a =
     (case v of
        PRef i \<Rightarrow>
          (case dict (identity_map s i) a of
             Some x \<Rightarrow> Inr x
           | None \<Rightarrow>
               (case class_attrs s (class_name (identity_map s i)) a of
                  None \<Rightarrow> Inl AttributeError
                | Some _ \<Rightarrow> Inl LazyLoadOutsideModel))
      | _ \<Rightarrow> Inl AttributeError)"

text \<open>
  \<open>set_committed_value(instance, key, value)\<close>: \<open>instance_state\<close> fails on a value that
  is no entity, \<open>state.manager[key]\<close> fails on a key the class does not map, and
  otherwise the value is written into the instance dictionary.
\<close>

definition set_committed_value ::
  "session \<Rightarrow> pyval \<Rightarrow> string option \<Rightarrow> pyval \<Rightarrow> error + session" where
  "set_committed_value s v k x =
     (case v of
        PRef i \<Rightarrow>
          (case k of
             None \<Rightarrow> Inl KeyError
           | Some a \<Rightarrow>
               (case class_attrs s (class_name (identity_map s i)) a of
                  None \<Rightarrow> Inl KeyError
                | Some _ \<Rightarrow>
                    Inr (s\<lparr>identity_map := (identity_map s)
                           (i := (identity_map s i)\<lparr>dict := (dict (identity_map s i))(a \<mapsto> x)\<rparr>)\<rparr>)))
      | _ \<Rightarrow> Inl AttributeError)"

section \<open>Paths\<close>

datatype fetcher_class = ManyToManyFetcher | ManyToOneFetcher | OneToManyFetcher

record path =
  "property" :: relationship_property
  entities :: "pyval list"
  populate_backrefs :: bool

text \<open>\<open>Path.fetcher_class\<close>.\<close>

definition fetcher_class :: "path \<Rightarrow> fetcher_class" where
  "fetcher_class p =
     (if secondary (property p) \<noteq> None then ManyToManyFetcher
      else if direction (property p) = MANYTOONE then ManyToOneFetcher
      else OneToManyFetcher)"

text \<open>\<open>Path.__init__\<close>.\<close>

definition Path :: "pyval list \<Rightarrow> property \<Rightarrow> bool \<Rightarrow> error + path" where
  "Path es prop pb =
     (case prop of
        RelationshipProperty rp \<Rightarrow>
          Inr \<lparr>property = rp, entities = es, populate_backrefs = pb\<rparr>
      | ColumnProperty _ \<Rightarrow> Inl NotARelationshipError)"

text \<open>\<open>Path.session\<close> is \<open>object_session(self.entities[0])\<close>; there is one session.\<close>

definition path_session :: "path \<Rightarrow> error + unit" where
  "path_session p =
     (case entities p of
        [] \<Rightarrow> Inl IndexError
      | PRef _ # _ \<Rightarrow> Inr ()
      | _ # _ \<Rightarrow> Inl UnmappedInstanceError)"

text \<open>\<open>Path.parent_model\<close>.\<close>

definition parent_model :: "session \<Rightarrow> path \<Rightarrow> error + string" where
  "parent_model s p =
     (case entities p of [] \<Rightarrow> Inl IndexError | e # _ \<Rightarrow> Inr (class_of s e))"

text \<open>\<open>Path.model\<close>.\<close>

definition model :: "path \<Rightarrow> string" where
  "model p = mapper_class (property p)"

text \<open>\<open>str.split('.')\<close> and \<open>'.'.join\<close>.\<close>

fun split_dot :: "string \<Rightarrow> string list" where
  "split_dot [] = [[]]"
| "split_dot (c # cs) =
     (if c = CHR ''.'' then [] # split_dot cs
      else (case split_dot cs of [] \<Rightarrow> [[c]] | w # ws \<Rightarrow> (c # w) # ws))"

fun join_dot :: "string list \<Rightarrow> string" where
  "join_dot [] = []"
| "join_dot [w] = w"
| "join_dot (w # ws) = w @ CHR ''.'' # join_dot ws"

text \<open>
  The loop of \<open>Path.parse\<close> that gathers the related entities:
  \<open>related_entities.extend(getattr(entity, attr))\<close> for every entity; \<open>extend\<close> raises
  \<open>TypeError\<close> on a value that is not iterable.
\<close>

fun extend_related :: "session \<Rightarrow> string \<Rightarrow> pyval list \<Rightarrow> pyval list \<Rightarrow> error + pyval list" where
  "extend_related s a acc [] = Inr acc"
| "extend_related s a acc (e # es) =
     (case getattr_entity s e a of
        Inl err \<Rightarrow> Inl err
      | Inr (PList xs) \<Rightarrow> extend_related s a (acc @ xs) es
      | Inr _ \<Rightarrow> Inl TypeError)"

text \<open>
  A path specifier: a string, an \<open>InstrumentedAttribute\<close> (with its property), a
  \<open>with_backrefs\<close> or \<open>CompositePath\<close> wrapper, or any other object.
\<close>

datatype attr_path =
    Str string
  | InstrumentedAttribute property
  | with_backrefs attr_path
  | CompositePath "attr_path list"
  | OtherObject

text \<open>\<open>Path.parse\<close>.\<close>

function parse :: "session \<Rightarrow> pyval list \<Rightarrow> attr_path \<Rightarrow> bool \<Rightarrow> error + path" where
  "parse s es (Str p) pb =
     (if length (split_dot p) > 1 then
        (case extend_related s (hd (split_dot p)) [] es of
           Inl err \<Rightarrow> Inl err
         | Inr related_entities \<Rightarrow>
             parse s related_entities (Str (join_dot (tl (split_dot p)))) pb)
      else
        (case es of
           [] \<Rightarrow> Inl IndexError
         | e # _ \<Rightarrow>
             (case getattr_class s (class_of s e) (hd (split_dot p)) of
                Inl err \<Rightarrow> Inl err
              | Inr prop \<Rightarrow> Path es prop pb)))"
| "parse s es (InstrumentedAttribute prop) pb = Path es prop pb"
| "parse s es (with_backrefs v) pb = Inl UnknownPathSpecError"
| "parse s es (CompositePath vs) pb = Inl UnknownPathSpecError"
| "parse s es OtherObject pb = Inl UnknownPathSpecError"
  by pat_completeness auto
termination
proof (relation "measure (\<lambda>(s, es, p, pb). case p of Str x \<Rightarrow> length x | _ \<Rightarrow> 0)")
  show "wf (measure (\<lambda>(s, es, p, pb). case p of Str x \<Rightarrow> length x | _ \<Rightarrow> 0))"
    by simp
next
  fix s :: session and es :: "pyval list" and p :: string and pb :: bool
    and related_entities :: "pyval list"
  assume long: "1 < length (split_dot p)"
  have ne: "split_dot q \<noteq> []" for q
    by (induction q) (auto split: list.splits)
  have js: "join_dot (split_dot q) = q" for q
  proof (induction q)
    case Nil
    show ?case by simp
  next
    case (Cons c cs)
    show ?case
    proof (cases "split_dot cs")
      case Nil
      with ne show ?thesis by simp
    next
      case (Cons w ws)
      with Cons.IH show ?thesis by (cases ws) auto
    qed
  qed
  obtain w v vs where sp: "split_dot p = w # v # vs"
    using long by (cases "split_dot p"; cases "tl (split_dot p)") auto
  have "p = w @ CHR ''.'' # join_dot (v # vs)"
    using js [of p] sp by simp
  then have "length (join_dot (tl (split_dot p))) < length p"
    using sp by simp
  then show "((s, related_entities, Str (join_dot (tl (split_dot p))), pb), (s, es, Str p, pb))
      \<in> measure (\<lambda>(s, es, p, pb). case p of Str x \<Rightarrow> length x | _ \<Rightarrow> 0)"
    by simp
qed

declare parse.simps(1) [simp del]

section \<open>Queries\<close>

text \<open>
  What the data store sees of a row: a column that is not in the instance dictionary
  reads as \<open>NULL\<close>. In SQL a comparison with \<open>NULL\<close> is never true.
\<close>

definition column_value :: "session \<Rightarrow> nat \<Rightarrow> string \<Rightarrow> pyval" where
  "column_value s i c = (case dict (identity_map s i) c of None \<Rightarrow> PNone | Some v \<Rightarrow> v)"

definition secondary_value :: "(string \<rightharpoonup> pyval) \<Rightarrow> string \<Rightarrow> pyval" where
  "secondary_value r c = (case r c of None \<Rightarrow> PNone | Some v \<Rightarrow> v)"

definition sql_in :: "pyval \<Rightarrow> pyval list \<Rightarrow> bool" where
  "sql_in v vs = (v \<noteq> PNone \<and> v \<in> set vs)"

definition sql_eq :: "pyval \<Rightarrow> pyval \<Rightarrow> bool" where
  "sql_eq a b = (a \<noteq> PNone \<and> a = b)"

text \<open>A filter condition: \<open>column.in_(values)\<close> or \<open>sa.or_(*conditions)\<close>.\<close>

datatype condition = InList string "pyval list" | OrList "condition list"

fun holds :: "session \<Rightarrow> condition \<Rightarrow> nat \<Rightarrow> bool" where
  "holds s (InList c vs) i = sql_in (column_value s i c) vs"
| "holds s (OrList cs) i = (\<exists>c \<in> set cs. holds s c i)"

text \<open>
  A row of a query result: an entity for \<open>query(Model)\<close>, a tuple of an entity and a
  column value for \<open>query(Model, column)\<close>.
\<close>

datatype row = EntityRow nat | TupleRow nat pyval

text \<open>Iterating over a query executes it.\<close>

definition execute :: "session \<Rightarrow> session" where
  "execute s = s\<lparr>query_count := Suc (query_count s)\<rparr>"

text \<open>\<open>session.query(cls).get(ident)\<close>: the row of that primary key, or \<open>None\<close>.\<close>

definition query_get :: "session \<Rightarrow> string \<Rightarrow> pyval \<Rightarrow> pyval" where
  "query_get s c v =
     (case find (\<lambda>i. sql_eq (column_value s i (primary_key s c)) v) (rows s c) of
        None \<Rightarrow> PNone
      | Some i \<Rightarrow> PRef i)"

section \<open>Fetchers\<close>

text \<open>
  A fetcher: its class, its path and \<open>parent_dict\<close>. A \<open>defaultdict\<close> is a total function:
  a key that was never set reads as the default.
\<close>

record fetcher =
  kind :: fetcher_class
  path :: path
  parent_dict :: "pyval \<Rightarrow> pyval"

text \<open>\<open>Fetcher.__init__\<close> and \<open>ManyToOneFetcher.__init__\<close>.\<close>

definition Fetcher :: "fetcher_class \<Rightarrow> path \<Rightarrow> fetcher" where
  "Fetcher k p =
     \<lparr>kind = k, path = p,
      parent_dict = (case k of ManyToOneFetcher \<Rightarrow> (\<lambda>_. PNone) | _ \<Rightarrow> (\<lambda>_. PList []))\<rparr>"

text \<open>\<open>self.fetcher = self.fetcher_class(self)\<close> of \<open>Path.__init__\<close>.\<close>

definition path_fetcher :: "path \<Rightarrow> fetcher" where
  "path_fetcher p = Fetcher (fetcher_class p) p"

text \<open>\<open>Fetcher.local_values\<close>.\<close>

definition local_values :: "session \<Rightarrow> fetcher \<Rightarrow> pyval \<Rightarrow> error + pyval" where
  "local_values s f e =
     (case local_columns (property (path f)) of
        [] \<Rightarrow> Inl IndexError
      | c # _ \<Rightarrow> getattr_entity s e (name c))"

text \<open>\<open>Fetcher.local_values_list\<close>.\<close>

fun local_values_of :: "session \<Rightarrow> fetcher \<Rightarrow> pyval list \<Rightarrow> error + pyval list" where
  "local_values_of s f [] = Inr []"
| "local_values_of s f (e # es) =
     bindE (local_values s f e) (\<lambda>v. bindE (local_values_of s f es) (\<lambda>vs. Inr (v # vs)))"

definition local_values_list :: "session \<Rightarrow> fetcher \<Rightarrow> error + pyval list" where
  "local_values_list s f = local_values_of s f (entities (path f))"

text \<open>\<open>self.path.parent_model.__table__\<close>; a built-in class has no table.\<close>

definition parent_table :: "session \<Rightarrow> path \<Rightarrow> error + string" where
  "parent_table s p =
     bindE (parent_model s p) (\<lambda>c.
       case entities p of PRef _ # _ \<Rightarrow> Inr (class_table s c) | _ \<Rightarrow> Inl AttributeError)"

text \<open>
  The two loops of \<open>ManyToManyFetcher.remote_column_name\<close>; \<open>fk.parent\<close> is the column
  that owns the foreign key. The result \<open>None\<close> is Python's, when no column is found.
\<close>

fun foreign_key_loop :: "session \<Rightarrow> path \<Rightarrow> string \<Rightarrow> string list \<Rightarrow> error + string option" where
  "foreign_key_loop s p n [] = Inr None"
| "foreign_key_loop s p n (t # ts) =
     bindE (parent_table s p) (\<lambda>pt.
       if t = pt then Inr (Some n) else foreign_key_loop s p n ts)"

fun column_loop :: "session \<Rightarrow> path \<Rightarrow> column list \<Rightarrow> error + string option" where
  "column_loop s p [] = Inr None"
| "column_loop s p (c # cs) =
     bindE (foreign_key_loop s p (name c) (foreign_keys c)) (\<lambda>r.
       case r of Some n \<Rightarrow> Inr (Some n) | None \<Rightarrow> column_loop s p cs)"

text \<open>\<open>Fetcher.remote_column_name\<close> and its override in \<open>ManyToManyFetcher\<close>.\<close>

definition remote_column_name :: "session \<Rightarrow> fetcher \<Rightarrow> error + string option" where
  "remote_column_name s f =
     (case kind f of
        ManyToManyFetcher \<Rightarrow> column_loop s (path f) (remote_side (property (path f)))
      | _ \<Rightarrow>
          (case remote_side (property (path f)) of
             [] \<Rightarrow> Inl IndexError
           | c # _ \<Rightarrow> Inr (Some (name c))))"

text \<open>
  \<open>Fetcher.condition\<close>: \<open>getattr(self.path.model, self.remote_column_name)\<close>, then the
  argument \<open>self.local_values_list\<close>, then the call of \<open>in_\<close>, which a relationship
  attribute does not implement.
\<close>

definition condition :: "session \<Rightarrow> fetcher \<Rightarrow> error + condition" where
  "condition s f =
     bindE (remote_column_name s f) (\<lambda>n.
       case n of
         None \<Rightarrow> Inl TypeError
       | Some c \<Rightarrow>
           bindE (getattr_class s (model (path f)) c) (\<lambda>prop.
             bindE (local_values_list s f) (\<lambda>vs.
               case prop of
                 RelationshipProperty _ \<Rightarrow> Inl NotImplementedError
               | ColumnProperty _ \<Rightarrow> Inr (InList c vs))))"

text \<open>
  Iterating over a query that selects a mapped entity yields each row once: the ORM
  passes the rows of the data store through its \<open>unique_list\<close>, which keeps the first
  of the rows that are equal, in the order of the data store. \<open>seen\<close> is the set of the
  rows it has yielded. A table holds each of its rows once, so that only a join can
  repeat a row.
\<close>

fun unique_list :: "'a list \<Rightarrow> 'a list \<Rightarrow> 'a list" where
  "unique_list seen [] = []"
| "unique_list seen (x # xs) =
     (if x \<in> set seen then unique_list seen xs else x # unique_list (x # seen) xs)"

text \<open>
  The rows of the query of \<open>ManyToManyFetcher.related_entities\<close>: every pair of an
  association row whose column \<open>c\<close> is among \<open>vs\<close> and a related entity that
  \<open>secondaryjoin\<close> joins to it, with the value of \<open>c\<close>; a pair that the join yields for
  several association rows is a row of the query once. The data store fixes the
  order of the rows; here the association rows come in table order.
\<close>

definition secondary_join ::
  "session \<Rightarrow> relationship_property \<Rightarrow> string \<Rightarrow> string \<Rightarrow> pyval list \<Rightarrow> row list" where
  "secondary_join s rp sec c vs =
     unique_list []
       (concat (map
          (\<lambda>r. map (\<lambda>i. TupleRow i (secondary_value r c))
                 (filter (\<lambda>i. sql_eq (column_value s i (fst (secondaryjoin rp)))
                                     (secondary_value r (snd (secondaryjoin rp))))
                    (rows s (mapper_class rp))))
          (filter (\<lambda>r. sql_in (secondary_value r c) vs) (secondary_rows s sec))))"

text \<open>\<open>Fetcher.related_entities\<close> and its override in \<open>ManyToManyFetcher\<close>.\<close>

definition related_entities :: "session \<Rightarrow> fetcher \<Rightarrow> error + row list" where
  "related_entities s f =
     (case kind f of
        ManyToManyFetcher \<Rightarrow>
          bindE (path_session (path f)) (\<lambda>_.
            case secondary (property (path f)) of
              None \<Rightarrow> Inl AttributeError
            | Some sec \<Rightarrow>
                bindE (remote_column_name s f) (\<lambda>n.
                  case n of
                    None \<Rightarrow> Inl TypeError
                  | Some c \<Rightarrow>
                      bindE (local_values_list s f) (\<lambda>vs.
                        Inr (secondary_join s (property (path f)) sec c vs))))
      | _ \<Rightarrow>
          bindE (path_session (path f)) (\<lambda>_.
            bindE (condition s f) (\<lambda>c.
              Inr (map EntityRow (filter (holds s c) (rows s (model (path f))))))))"

text \<open>A dictionary key must be hashable; a list is not.\<close>

definition hashable :: "pyval \<Rightarrow> error + pyval" where
  "hashable k = (case k of PList _ \<Rightarrow> Inl TypeError | _ \<Rightarrow> Inr k)"

text \<open>\<open>self.parent_dict[k].append(entity)\<close>.\<close>

definition dict_append :: "fetcher \<Rightarrow> pyval \<Rightarrow> nat \<Rightarrow> error + fetcher" where
  "dict_append f k i =
     (case parent_dict f k of
        PList xs \<Rightarrow> Inr (f\<lparr>parent_dict := (parent_dict f)(k := PList (xs @ [PRef i]))\<rparr>)
      | _ \<Rightarrow> Inl AttributeError)"

text \<open>
  \<open>append_entity\<close> of \<open>OneToManyFetcher\<close> and of \<open>ManyToOneFetcher\<close>; \<open>ManyToManyFetcher\<close>
  has no such method. A tuple has no column attribute.
\<close>

definition append_entity :: "session \<Rightarrow> fetcher \<Rightarrow> row \<Rightarrow> error + fetcher" where
  "append_entity s f r =
     (case kind f of
        ManyToManyFetcher \<Rightarrow> Inl AttributeError
      | k \<Rightarrow>
          bindE (remote_column_name s f) (\<lambda>n.
            case n of
              None \<Rightarrow> Inl TypeError
            | Some c \<Rightarrow>
                (case r of
                   TupleRow _ _ \<Rightarrow> Inl AttributeError
                 | EntityRow i \<Rightarrow>
                     bindE (getattr_entity s (PRef i) c) (\<lambda>v.
                       bindE (hashable v) (\<lambda>v.
                         if k = ManyToOneFetcher
                         then Inr (f\<lparr>parent_dict := (parent_dict f)(v := PRef i)\<rparr>)
                         else dict_append f v i)))))"

text \<open>The loop of \<open>Fetcher.fetch\<close>.\<close>

fun append_entities :: "session \<Rightarrow> fetcher \<Rightarrow> row list \<Rightarrow> error + fetcher" where
  "append_entities s f [] = Inr f"
| "append_entities s f (r # rs) =
     bindE (append_entity s f r) (\<lambda>f'. append_entities s f' rs)"

text \<open>
  The loop of \<open>ManyToManyFetcher.fetch\<close>; unpacking an entity into
  \<open>entity, parent_id\<close> raises \<open>TypeError\<close>.
\<close>

fun append_tuples :: "fetcher \<Rightarrow> row list \<Rightarrow> error + fetcher" where
  "append_tuples f [] = Inr f"
| "append_tuples f (EntityRow i # rs) = Inl TypeError"
| "append_tuples f (TupleRow i parent_id # rs) =
     bindE (hashable parent_id) (\<lambda>k.
       bindE (dict_append f k i) (\<lambda>f'. append_tuples f' rs))"

text \<open>\<open>Fetcher.fetch\<close> and \<open>ManyToManyFetcher.fetch\<close>, with the session after the query.\<close>

definition fetch :: "session \<Rightarrow> fetcher \<Rightarrow> (error + fetcher) \<times> session" where
  "fetch s f =
     (case related_entities s f of
        Inl err \<Rightarrow> (Inl err, s)
      | Inr rs \<Rightarrow>
          (if kind f = ManyToManyFetcher then append_tuples f rs
           else append_entities s f rs, execute s))"

section \<open>Populating the entities\<close>

text \<open>The loop of \<open>Fetcher.populate\<close> over \<open>self.path.entities\<close>.\<close>

fun populate_entities :: "fetcher \<Rightarrow> pyval list \<Rightarrow> session \<Rightarrow> error option \<times> session" where
  "populate_entities f [] s = (None, s)"
| "populate_entities f (e # es) s =
     (case bindE (local_values s f e) hashable of
        Inl err \<Rightarrow> (Some err, s)
      | Inr k \<Rightarrow>
          (case set_committed_value s e (Some (key (property (path f)))) (parent_dict f k) of
             Inl err \<Rightarrow> (Some err, s)
           | Inr s' \<Rightarrow> populate_entities f es s'))"

text \<open>\<open>for entity, parent_id in related_entities\<close>: a row that is an entity cannot be unpacked.\<close>

definition unpack :: "row \<Rightarrow> error + nat \<times> pyval" where
  "unpack r = (case r of EntityRow _ \<Rightarrow> Inl TypeError | TupleRow i v \<Rightarrow> Inr (i, v))"

text \<open>
  The three loops of \<open>Fetcher.populate_backrefs\<close>. \<open>backref_dict\<close> is a plain dictionary:
  a missing key raises \<open>KeyError\<close>.
\<close>

fun backref_keys ::
  "session \<Rightarrow> fetcher \<Rightarrow> row list \<Rightarrow> (pyval \<rightharpoonup> pyval list) \<Rightarrow> error + (pyval \<rightharpoonup> pyval list)" where
  "backref_keys s f [] d = Inr d"
| "backref_keys s f (r # rs) d =
     bindE (unpack r) (\<lambda>(i, parent_id).
       bindE (bindE (local_values s f (PRef i)) hashable) (\<lambda>k.
         backref_keys s f rs (d(k \<mapsto> []))))"

fun backref_parents ::
  "session \<Rightarrow> fetcher \<Rightarrow> row list \<Rightarrow> (pyval \<rightharpoonup> pyval list) \<Rightarrow> error + (pyval \<rightharpoonup> pyval list)" where
  "backref_parents s f [] d = Inr d"
| "backref_parents s f (r # rs) d =
     bindE (unpack r) (\<lambda>(i, parent_id).
       bindE (bindE (local_values s f (PRef i)) hashable) (\<lambda>k.
         case d k of
           None \<Rightarrow> Inl KeyError
         | Some xs \<Rightarrow>
             bindE (path_session (path f)) (\<lambda>_.
               bindE (parent_model s (path f)) (\<lambda>pm.
                 backref_parents s f rs (d(k \<mapsto> xs @ [query_get s pm parent_id]))))))"

fun backref_assign ::
  "fetcher \<Rightarrow> (pyval \<rightharpoonup> pyval list) \<Rightarrow> row list \<Rightarrow> session \<Rightarrow> error option \<times> session" where
  "backref_assign f d [] s = (None, s)"
| "backref_assign f d (r # rs) s =
     (case unpack r of
        Inl err \<Rightarrow> (Some err, s)
      | Inr (i, parent_id) \<Rightarrow>
          (case bindE (local_values s f (PRef i)) hashable of
             Inl err \<Rightarrow> (Some err, s)
           | Inr k \<Rightarrow>
               (case d k of
                  None \<Rightarrow> (Some KeyError, s)
                | Some xs \<Rightarrow>
                    (case set_committed_value s (PRef i)
                            (back_populates (property (path f))) (PList xs) of
                       Inl err \<Rightarrow> (Some err, s)
                     | Inr s' \<Rightarrow> backref_assign f d rs s'))))"

text \<open>
  \<open>Fetcher.populate_backrefs\<close>, given the rows of the query it is called with; each of
  its loops executes the query again.
\<close>

definition populate_backrefs_method ::
  "session \<Rightarrow> fetcher \<Rightarrow> row list \<Rightarrow> error option \<times> session" where
  "populate_backrefs_method s f rs =
     (case backref_keys s f rs Map.empty of
        Inl err \<Rightarrow> (Some err, execute s)
      | Inr d \<Rightarrow>
          (case backref_parents s f rs d of
             Inl err \<Rightarrow> (Some err, execute (execute s))
           | Inr d' \<Rightarrow> backref_assign f d' rs (execute (execute (execute s)))))"

text \<open>\<open>Fetcher.populate\<close>.\<close>

definition populate :: "session \<Rightarrow> fetcher \<Rightarrow> error option \<times> session" where
  "populate s f =
     (case populate_entities f (entities (path f)) s of
        (Some err, s') \<Rightarrow> (Some err, s')
      | (None, s') \<Rightarrow>
          (if populate_backrefs (path f) then
             (case related_entities s' f of
                Inl err \<Rightarrow> (Some err, s')
              | Inr rs \<Rightarrow> populate_backrefs_method s' f rs)
           else (None, s')))"

section \<open>The composite fetcher\<close>

text \<open>\<open>CompositeFetcher.__init__\<close>; \<open>all\<close> of no fetchers is true.\<close>

definition CompositeFetcher :: "fetcher list \<Rightarrow> error + fetcher list" where
  "CompositeFetcher fs =
     (if list_all (\<lambda>f. model (path (hd fs)) = model (path f)) fs then Inr fs
      else Inl IncompatibleFetcherError)"

text \<open>\<open>CompositeFetcher.session\<close> and \<open>CompositeFetcher.model\<close> read \<open>self.fetchers[0]\<close>.\<close>

definition composite_session :: "fetcher list \<Rightarrow> error + unit" where
  "composite_session fs = (case fs of [] \<Rightarrow> Inl IndexError | f # _ \<Rightarrow> path_session (path f))"

definition composite_model :: "fetcher list \<Rightarrow> error + string" where
  "composite_model fs = (case fs of [] \<Rightarrow> Inl IndexError | f # _ \<Rightarrow> Inr (model (path f)))"

text \<open>\<open>CompositeFetcher.condition\<close>.\<close>

fun conditions :: "session \<Rightarrow> fetcher list \<Rightarrow> error + condition list" where
  "conditions s [] = Inr []"
| "conditions s (f # fs) =
     bindE (condition s f) (\<lambda>c. bindE (conditions s fs) (\<lambda>cs. Inr (c # cs)))"

definition composite_condition :: "session \<Rightarrow> fetcher list \<Rightarrow> error + condition" where
  "composite_condition s fs = bindE (conditions s fs) (\<lambda>cs. Inr (OrList cs))"

text \<open>\<open>CompositeFetcher.related_entities\<close>.\<close>

definition composite_related_entities :: "session \<Rightarrow> fetcher list \<Rightarrow> error + row list" where
  "composite_related_entities s fs =
     bindE (composite_session fs) (\<lambda>_.
       bindE (composite_model fs) (\<lambda>m.
         bindE (composite_condition s fs) (\<lambda>c.
           Inr (map EntityRow (filter (holds s c) (rows s m))))))"

text \<open>\<open>getattr(entity, name)\<close> on a row of a query.\<close>

definition getattr_row :: "session \<Rightarrow> row \<Rightarrow> string \<Rightarrow> error + pyval" where
  "getattr_row s r c =
     (case r of EntityRow i \<Rightarrow> getattr_entity s (PRef i) c | TupleRow _ _ \<Rightarrow> Inl AttributeError)"

text \<open>The inner and the outer loop of \<open>CompositeFetcher.fetch\<close>.\<close>

fun composite_fetchers_loop :: "session \<Rightarrow> row \<Rightarrow> fetcher list \<Rightarrow> error + fetcher list" where
  "composite_fetchers_loop s r [] = Inr []"
| "composite_fetchers_loop s r (f # fs) =
     bindE (remote_column_name s f) (\<lambda>n.
       case n of
         None \<Rightarrow> Inl TypeError
       | Some c \<Rightarrow>
           bindE (getattr_row s r c) (\<lambda>v.
             bindE (if v \<noteq> PNone then append_entity s f r else Inr f) (\<lambda>f'.
               bindE (composite_fetchers_loop s r fs) (\<lambda>fs'. Inr (f' # fs')))))"

fun composite_rows_loop :: "session \<Rightarrow> fetcher list \<Rightarrow> row list \<Rightarrow> error + fetcher list" where
  "composite_rows_loop s fs [] = Inr fs"
| "composite_rows_loop s fs (r # rs) =
     bindE (composite_fetchers_loop s r fs) (\<lambda>fs'. composite_rows_loop s fs' rs)"

text \<open>\<open>CompositeFetcher.fetch\<close>, with the session after the query.\<close>

definition composite_fetch :: "session \<Rightarrow> fetcher list \<Rightarrow> (error + fetcher list) \<times> session" where
  "composite_fetch s fs =
     (case composite_related_entities s fs of
        Inl err \<Rightarrow> (Inl err, s)
      | Inr rs \<Rightarrow> (composite_rows_loop s fs rs, execute s))"

text \<open>\<open>CompositeFetcher.populate\<close>.\<close>

fun composite_populate :: "fetcher list \<Rightarrow> session \<Rightarrow> error option \<times> session" where
  "composite_populate [] s = (None, s)"
| "composite_populate (f # fs) s =
     (case populate s f of
        (Some err, s') \<Rightarrow> (Some err, s')
      | (None, s') \<Rightarrow> composite_populate fs s')"

section \<open>The coordinator and the entry point\<close>

text \<open>The loop of \<open>FetchingCoordinator.__call__\<close> over the paths of a \<open>CompositePath\<close>.\<close>

fun parse_fetchers :: "session \<Rightarrow> pyval list \<Rightarrow> attr_path list \<Rightarrow> bool \<Rightarrow> error + fetcher list" where
  "parse_fetchers s es [] pb = Inr []"
| "parse_fetchers s es (p # ps) pb =
     bindE (parse s es p pb) (\<lambda>q.
       bindE (parse_fetchers s es ps pb) (\<lambda>fs. Inr (path_fetcher q # fs)))"

text \<open>\<open>FetchingCoordinator.__call__\<close>: the error raised, if any, and the session it leaves.\<close>

definition FetchingCoordinator :: "session \<Rightarrow> pyval list \<Rightarrow> attr_path \<Rightarrow> error option \<times> session" where
  "FetchingCoordinator s es ap =
     (let (ap', pb) = (case ap of with_backrefs q \<Rightarrow> (q, True) | _ \<Rightarrow> (ap, False)) in
      case ap' of
        CompositePath ps \<Rightarrow>
          (case bindE (parse_fetchers s es ps pb) CompositeFetcher of
             Inl err \<Rightarrow> (Some err, s)
           | Inr fs \<Rightarrow>
               (case composite_fetch s fs of
                  (Inl err, s') \<Rightarrow> (Some err, s')
                | (Inr fs', s') \<Rightarrow> composite_populate fs' s'))
      | _ \<Rightarrow>
          (case parse s es ap' pb of
             Inl err \<Rightarrow> (Some err, s)
           | Inr q \<Rightarrow>
               (case fetch s (path_fetcher q) of
                  (Inl err, s') \<Rightarrow> (Some err, s')
                | (Inr f', s') \<Rightarrow> populate s' f')))"

text \<open>The loop of \<open>batch_fetch\<close> over \<open>attr_paths\<close>, and \<open>batch_fetch\<close>.\<close>

fun fetch_paths :: "session \<Rightarrow> pyval list \<Rightarrow> attr_path list \<Rightarrow> error option \<times> session" where
  "fetch_paths s es [] = (None, s)"
| "fetch_paths s es (ap # aps) =
     (case FetchingCoordinator s es ap of
        (Some err, s') \<Rightarrow> (Some err, s')
      | (None, s') \<Rightarrow> fetch_paths s' es aps)"

definition batch_fetch :: "session \<Rightarrow> pyval list \<Rightarrow> attr_path list \<Rightarrow> error option \<times> session" where
  "batch_fetch s es aps = (if es \<noteq> [] then fetch_paths s es aps else (None, s))"

section \<open>Notions used in the statements\<close>

text \<open>
  The entities that \<open>Path.parse\<close> has gathered after it has followed the attributes
  \<open>attrs\<close> from \<open>es\<close>: one run of its loop for each attribute.
\<close>

fun follow :: "session \<Rightarrow> pyval list \<Rightarrow> string list \<Rightarrow> error + pyval list" where
  "follow s es [] = Inr es"
| "follow s es (a # attrs) = bindE (extend_related s a [] es) (\<lambda>r. follow s r attrs)"

text \<open>The value of the attribute \<open>a\<close> of \<open>e\<close> when it is a loaded list; no entities otherwise.\<close>

definition loaded_list :: "session \<Rightarrow> string \<Rightarrow> pyval \<Rightarrow> pyval list" where
  "loaded_list s a e = (case getattr_entity s e a of Inr (PList xs) \<Rightarrow> xs | _ \<Rightarrow> [])"

text \<open>
  The related entities as the specification describes them for a dotted path: list
  values are flattened, null values are skipped, a single related entity is kept.
\<close>

fun spec_related_entities :: "session \<Rightarrow> string \<Rightarrow> pyval list \<Rightarrow> pyval list" where
  "spec_related_entities s a [] = []"
| "spec_related_entities s a (e # es) =
     (case getattr_entity s e a of
        Inr (PList xs) \<Rightarrow> xs
      | Inr PNone \<Rightarrow> []
      | Inr v \<Rightarrow> [v]
      | Inl _ \<Rightarrow> []) @ spec_related_entities s a es"

text \<open>
  The key under which \<open>fetch\<close> files a row of the query: the value of the remote
  column \<open>c\<close> of an entity, the second component of a tuple.
\<close>

definition row_key :: "session \<Rightarrow> string \<Rightarrow> row \<Rightarrow> pyval" where
  "row_key s c r = (case r of EntityRow i \<Rightarrow> column_value s i c | TupleRow i v \<Rightarrow> v)"



text \<open>
  Two sessions that differ at most in the query count and in the value of the
  attribute \<open>a\<close> in the instance dictionaries.
\<close>

definition same_but :: "string option \<Rightarrow> session \<Rightarrow> session \<Rightarrow> bool" where
  "same_but a s s' =
     (rows s' = rows s \<and> secondary_rows s' = secondary_rows s
      \<and> class_attrs s' = class_attrs s \<and> class_table s' = class_table s
      \<and> primary_key s' = primary_key s
      \<and> (\<forall>j. class_name (identity_map s' j) = class_name (identity_map s j)
             \<and> (\<forall>b. Some b \<noteq> a \<longrightarrow>
                   dict (identity_map s' j) b = dict (identity_map s j) b)))"

section \<open>An example session\<close>

text \<open>
  Users, their phones and their groups. A phone points to the user it belongs to
  (\<open>user_id\<close>) and to the user who pays for it (\<open>owner_id\<close>); users and groups are
  linked by the association table \<open>user_group\<close>, which links user 1 to group 21 twice,
  and by the association table \<open>group_admin\<close> of the groups a user manages.
\<close>

definition user_id_column :: column where
  "user_id_column = \<lparr>name = ''id'', table = ''user'', foreign_keys = []\<rparr>"

definition user_age_column :: column where
  "user_age_column = \<lparr>name = ''age'', table = ''user'', foreign_keys = []\<rparr>"

definition phone_id_column :: column where
  "phone_id_column = \<lparr>name = ''id'', table = ''phone'', foreign_keys = []\<rparr>"

definition phone_user_id_column :: column where
  "phone_user_id_column = \<lparr>name = ''user_id'', table = ''phone'', foreign_keys = [''user'']\<rparr>"

definition phone_owner_id_column :: column where
  "phone_owner_id_column = \<lparr>name = ''owner_id'', table = ''phone'', foreign_keys = [''user'']\<rparr>"

definition group_id_column :: column where
  "group_id_column = \<lparr>name = ''id'', table = ''group'', foreign_keys = []\<rparr>"

definition user_group_user_id_column :: column where
  "user_group_user_id_column =
     \<lparr>name = ''user_id'', table = ''user_group'', foreign_keys = [''user'']\<rparr>"

definition user_group_group_id_column :: column where
  "user_group_group_id_column =
     \<lparr>name = ''group_id'', table = ''user_group'', foreign_keys = [''group'']\<rparr>"

definition group_admin_user_id_column :: column where
  "group_admin_user_id_column =
     \<lparr>name = ''admin_id'', table = ''group_admin'', foreign_keys = [''user'']\<rparr>"

definition group_admin_group_id_column :: column where
  "group_admin_group_id_column =
     \<lparr>name = ''group_id'', table = ''group_admin'', foreign_keys = [''group'']\<rparr>"

definition User_phones :: relationship_property where
  "User_phones =
     \<lparr>key = ''phones'', mapper_class = ''Phone'', secondary = None,
      secondaryjoin = ([], []), direction = ONETOMANY,
      local_columns = [user_id_column], remote_side = [phone_user_id_column],
      back_populates = Some ''user''\<rparr>"

definition User_owned_phones :: relationship_property where
  "User_owned_phones =
     \<lparr>key = ''owned_phones'', mapper_class = ''Phone'', secondary = None,
      secondaryjoin = ([], []), direction = ONETOMANY,
      local_columns = [user_id_column], remote_side = [phone_owner_id_column],
      back_populates = None\<rparr>"

definition Phone_user :: relationship_property where
  "Phone_user =
     \<lparr>key = ''user'', mapper_class = ''User'', secondary = None,
      secondaryjoin = ([], []), direction = MANYTOONE,
      local_columns = [phone_user_id_column], remote_side = [user_id_column],
      back_populates = Some ''phones''\<rparr>"

definition User_groups :: relationship_property where
  "User_groups =
     \<lparr>key = ''groups'', mapper_class = ''Group'', secondary = Some ''user_group'',
      secondaryjoin = (''id'', ''group_id''), direction = MANYTOMANY,
      local_columns = [user_id_column],
      remote_side = [user_group_group_id_column, user_group_user_id_column],
      back_populates = Some ''users''\<rparr>"

definition User_managed_groups :: relationship_property where
  "User_managed_groups =
     \<lparr>key = ''managed_groups'', mapper_class = ''Group'', secondary = Some ''group_admin'',
      secondaryjoin = (''id'', ''group_id''), direction = MANYTOMANY,
      local_columns = [user_id_column],
      remote_side = [group_admin_group_id_column, group_admin_user_id_column],
      back_populates = None\<rparr>"

definition Group_users :: relationship_property where
  "Group_users =
     \<lparr>key = ''users'', mapper_class = ''User'', secondary = Some ''user_group'',
      secondaryjoin = (''id'', ''user_id''), direction = MANYTOMANY,
      local_columns = [group_id_column],
      remote_side = [user_group_group_id_column, user_group_user_id_column],
      back_populates = Some ''groups''\<rparr>"

definition example_attrs :: "string \<Rightarrow> string \<rightharpoonup> property" where
  "example_attrs c =
     (if c = ''User'' then
        [''id'' \<mapsto> ColumnProperty user_id_column,
         ''age'' \<mapsto> ColumnProperty user_age_column,
         ''phones'' \<mapsto> RelationshipProperty User_phones,
         ''owned_phones'' \<mapsto> RelationshipProperty User_owned_phones,
         ''groups'' \<mapsto> RelationshipProperty User_groups,
         ''managed_groups'' \<mapsto> RelationshipProperty User_managed_groups]
      else if c = ''Phone'' then
        [''id'' \<mapsto> ColumnProperty phone_id_column,
         ''user_id'' \<mapsto> ColumnProperty phone_user_id_column,
         ''owner_id'' \<mapsto> ColumnProperty phone_owner_id_column,
         ''user'' \<mapsto> RelationshipProperty Phone_user]
      else if c = ''Group'' then
        [''id'' \<mapsto> ColumnProperty group_id_column,
         ''users'' \<mapsto> RelationshipProperty Group_users]
      else Map.empty)"

text \<open>
  Users 1 and 2, phones 11, 12 and 13, groups 21 and 22. The users' \<open>phones\<close> and the
  phones' \<open>user\<close> are loaded; phone 13 belongs to nobody.
\<close>

definition example_entities :: "nat \<Rightarrow> entity" where
  "example_entities i =
     (if i = 1 then
        \<lparr>class_name = ''User'',
         dict = [''id'' \<mapsto> PInt 1, ''age'' \<mapsto> PInt 30,
                 ''phones'' \<mapsto> PList [PRef 11, PRef 12]]\<rparr>
      else if i = 2 then
        \<lparr>class_name = ''User'',
         dict = [''id'' \<mapsto> PInt 2, ''age'' \<mapsto> PInt 40, ''phones'' \<mapsto> PList []]\<rparr>
      else if i = 11 then
        \<lparr>class_name = ''Phone'',
         dict = [''id'' \<mapsto> PInt 11, ''user_id'' \<mapsto> PInt 1, ''owner_id'' \<mapsto> PInt 2,
                 ''user'' \<mapsto> PRef 1]\<rparr>
      else if i = 12 then
        \<lparr>class_name = ''Phone'',
         dict = [''id'' \<mapsto> PInt 12, ''user_id'' \<mapsto> PInt 1, ''owner_id'' \<mapsto> PNone,
                 ''user'' \<mapsto> PRef 1]\<rparr>
      else if i = 13 then
        \<lparr>class_name = ''Phone'',
         dict = [''id'' \<mapsto> PInt 13, ''user_id'' \<mapsto> PNone, ''owner_id'' \<mapsto> PInt 2,
                 ''user'' \<mapsto> PNone]\<rparr>
      else if i = 21 then
        \<lparr>class_name = ''Group'', dict = [''id'' \<mapsto> PInt 21]\<rparr>
      else
        \<lparr>class_name = ''Group'', dict = [''id'' \<mapsto> PInt 22]\<rparr>)"

definition example_session :: session where
  "example_session =
     \<lparr>identity_map = example_entities,
      rows = (\<lambda>c. if c = ''User'' then [1, 2]
                  else if c = ''Phone'' then [11, 12, 13]
                  else if c = ''Group'' then [21, 22] else []),
      secondary_rows = (\<lambda>t. if t = ''user_group'' then
                [[''user_id'' \<mapsto> PInt 1, ''group_id'' \<mapsto> PInt 21],
                 [''user_id'' \<mapsto> PInt 1, ''group_id'' \<mapsto> PInt 21],
                 [''user_id'' \<mapsto> PInt 2, ''group_id'' \<mapsto> PInt 21]]
              else if t = ''group_admin'' then
                [[''admin_id'' \<mapsto> PInt 2, ''group_id'' \<mapsto> PInt 22]]
              else []),
      class_attrs = example_attrs,
      class_table = (\<lambda>c. if c = ''User'' then ''user''
                  else if c = ''Phone'' then ''phone''
                  else if c = ''Group'' then ''group'' else []),
      primary_key = (\<lambda>c. ''id''),
      query_count = 0\<rparr>"

section \<open>Strings and paths\<close>

lemma split_dot_nonempty: "split_dot q \<noteq> []"
  by (induction q) (auto split: list.splits)

lemma split_dot_segment:
  "CHR ''.'' \<notin> set a \<Longrightarrow> split_dot (a @ CHR ''.'' # b) = a # split_dot b"
  by (induction a) (auto split: list.splits)

lemma split_dot_plain: "CHR ''.'' \<notin> set a \<Longrightarrow> split_dot a = [a]"
  by (induction a) (auto split: list.splits)

lemma join_dot_split_dot: "join_dot (split_dot q) = q"
proof (induction q)
  case Nil
  show ?case by simp
next
  case (Cons c cs)
  show ?case
  proof (cases "split_dot cs")
    case Nil
    with split_dot_nonempty show ?thesis by simp
  next
    case (Cons w ws)
    with Cons.IH show ?thesis by (cases ws) auto
  qed
qed

lemma join_dot_Cons: "ws \<noteq> [] \<Longrightarrow> join_dot (w # ws) = w @ CHR ''.'' # join_dot ws"
  by (cases ws) auto

text \<open>A dotted path: one run of the loop, then the rest of the path on what it gathered.\<close>

lemma parse_dotted:
  assumes "CHR ''.'' \<notin> set a"
  shows "parse s es (Str (a @ CHR ''.'' # b)) pb =
         bindE (extend_related s a [] es) (\<lambda>r. parse s r (Str b) pb)"
proof -
  obtain w ws where sp: "split_dot b = w # ws"
    using split_dot_nonempty [of b] by (cases "split_dot b") auto
  have "join_dot (w # ws) = b"
    using join_dot_split_dot [of b] sp by simp
  then show ?thesis
    using assms sp
    by (simp add: parse.simps(1) split_dot_segment bindE_def split: sum.splits)
qed

lemma parse_plain:
  assumes "CHR ''.'' \<notin> set a"
  shows "parse s es (Str a) pb =
         (case es of
            [] \<Rightarrow> Inl IndexError
          | e # _ \<Rightarrow> bindE (getattr_class s (class_of s e) a) (\<lambda>prop. Path es prop pb))"
  using assms
  by (simp add: parse.simps(1) split_dot_plain bindE_def split: list.splits sum.splits)

lemma parse_follow:
  assumes "\<forall>a \<in> set pre. CHR ''.'' \<notin> set a"
  shows "parse s es (Str (join_dot (pre @ [b]))) pb =
         bindE (follow s es pre) (\<lambda>r. parse s r (Str b) pb)"
  using assms
proof (induction pre arbitrary: es)
  case Nil
  show ?case by (simp add: bindE_def)
next
  case (Cons a pre)
  have "join_dot ((a # pre) @ [b]) = a @ CHR ''.'' # join_dot (pre @ [b])"
    by (simp add: join_dot_Cons)
  moreover have "CHR ''.'' \<notin> set a"
    using Cons.prems by simp
  moreover have "parse s r (Str (join_dot (pre @ [b]))) pb =
      bindE (follow s r pre) (\<lambda>r. parse s r (Str b) pb)" for r
    using Cons by simp
  ultimately show ?case
    by (simp add: parse_dotted bindE_def split: sum.splits)
qed

text \<open>With no entities every string path fails at \<open>entities[0]\<close>.\<close>

lemma parse_no_entities: "parse s [] (Str p) pb = Inl IndexError"
proof (induction "length p" arbitrary: p rule: less_induct)
  case less
  show ?case
  proof (cases "1 < length (split_dot p)")
    case False
    then show ?thesis by (simp add: parse.simps(1))
  next
    case True
    then obtain w v vs where sp: "split_dot p = w # v # vs"
      by (cases "split_dot p"; cases "tl (split_dot p)") auto
    have "p = w @ CHR ''.'' # join_dot (v # vs)"
      using join_dot_split_dot [of p] sp by simp
    then have "length (join_dot (v # vs)) < length p"
      by (metis add_Suc_right length_Cons length_append less_add_Suc2)
    then have "parse s [] (Str (join_dot (v # vs))) pb = Inl IndexError"
      using less by blast
    then show ?thesis
      using sp by (simp add: parse.simps(1))
  qed
qed

lemma extend_related_lists:
  assumes "\<forall>e \<in> set es. \<exists>xs. getattr_entity s e a = Inr (PList xs)"
  shows "extend_related s a acc es = Inr (acc @ concat (map (loaded_list s a) es))"
  using assms
proof (induction es arbitrary: acc)
  case Nil
  show ?case by simp
next
  case (Cons e es)
  then obtain xs where "getattr_entity s e a = Inr (PList xs)" by auto
  with Cons show ?case by (simp add: loaded_list_def)
qed

lemmas example_defs =
  example_session_def example_entities_def example_attrs_def
  User_phones_def User_owned_phones_def Phone_user_def User_groups_def Group_users_def
  user_id_column_def user_age_column_def phone_id_column_def phone_user_id_column_def
  phone_owner_id_column_def group_id_column_def user_group_user_id_column_def
  user_group_group_id_column_def User_managed_groups_def group_admin_user_id_column_def
  group_admin_group_id_column_def

section \<open>The loops of the fetchers\<close>

lemma remote_column_name_parent_dict [simp]:
  "remote_column_name s (f\<lparr>parent_dict := d\<rparr>) = remote_column_name s f"
  by (simp add: remote_column_name_def split: fetcher_class.splits)

lemma Fetcher_fields [simp]:
  "path (Fetcher k p) = p" "kind (Fetcher k p) = k"
  "parent_dict (Fetcher k p) = (case k of ManyToOneFetcher \<Rightarrow> (\<lambda>_. PNone) | _ \<Rightarrow> (\<lambda>_. PList []))"
  by (simp_all add: Fetcher_def)

lemma hashable_Inr: "hashable v = Inr w \<Longrightarrow> w = v"
  by (auto simp: hashable_def split: pyval.splits)

lemma append_entities_one_to_many:
  assumes "kind f = OneToManyFetcher" and "remote_column_name s f = Inr (Some c)"
    and "\<forall>i \<in> set is. \<exists>v. getattr_entity s (PRef i) c = Inr v \<and> hashable v = Inr v"
    and "parent_dict f = (\<lambda>k. PList (g k))"
  shows "append_entities s f (map EntityRow is) =
         Inr (f\<lparr>parent_dict :=
           \<lambda>k. PList (g k @ map PRef (filter (\<lambda>i. getattr_entity s (PRef i) c = Inr k) is))\<rparr>)"
  using assms
proof (induction "is" arbitrary: f g)
  case Nil
  then show ?case by simp
next
  case (Cons i "is")
  from Cons.prems(3) obtain v where v: "getattr_entity s (PRef i) c = Inr v" "hashable v = Inr v"
    by auto
  let ?f1 = "f\<lparr>parent_dict := (parent_dict f)(v := PList (g v @ [PRef i]))\<rparr>"
  have step: "append_entity s f (EntityRow i) = Inr ?f1"
    using Cons.prems(1,2,4) v by (simp add: append_entity_def bindE_def dict_append_def)
  have pd: "parent_dict ?f1 = (\<lambda>k. PList ((g(v := g v @ [PRef i])) k))"
    using Cons.prems(4) by auto
  have "append_entities s ?f1 (map EntityRow is) =
      Inr (?f1\<lparr>parent_dict := \<lambda>k. PList ((g(v := g v @ [PRef i])) k @
         map PRef (filter (\<lambda>i. getattr_entity s (PRef i) c = Inr k) is))\<rparr>)"
    using Cons.IH [of ?f1 "g(v := g v @ [PRef i])"] Cons.prems(1,2,3) pd by simp
  moreover have "(\<lambda>k. PList ((g(v := g v @ [PRef i])) k @
         map PRef (filter (\<lambda>i. getattr_entity s (PRef i) c = Inr k) is)))
     = (\<lambda>k. PList (g k @ map PRef (filter (\<lambda>i. getattr_entity s (PRef i) c = Inr k) (i # is))))"
    using v by auto
  ultimately show ?case
    using step by (simp add: bindE_def)
qed

lemma append_entities_many_to_one:
  assumes "kind f = ManyToOneFetcher" and "remote_column_name s f = Inr (Some c)"
    and "\<forall>i \<in> set is. \<exists>v. getattr_entity s (PRef i) c = Inr v \<and> hashable v = Inr v"
  shows "append_entities s f (map EntityRow is) =
         Inr (f\<lparr>parent_dict :=
           \<lambda>k. if filter (\<lambda>i. getattr_entity s (PRef i) c = Inr k) is = [] then parent_dict f k
                else PRef (last (filter (\<lambda>i. getattr_entity s (PRef i) c = Inr k) is))\<rparr>)"
  using assms
proof (induction "is" arbitrary: f)
  case Nil
  then show ?case by simp
next
  case (Cons i "is")
  from Cons.prems(3) obtain v where v: "getattr_entity s (PRef i) c = Inr v" "hashable v = Inr v"
    by auto
  let ?f1 = "f\<lparr>parent_dict := (parent_dict f)(v := PRef i)\<rparr>"
  have step: "append_entity s f (EntityRow i) = Inr ?f1"
    using Cons.prems(1,2) v by (simp add: append_entity_def bindE_def)
  have "append_entities s ?f1 (map EntityRow is) =
      Inr (?f1\<lparr>parent_dict := \<lambda>k.
         if filter (\<lambda>i. getattr_entity s (PRef i) c = Inr k) is = [] then parent_dict ?f1 k
         else PRef (last (filter (\<lambda>i. getattr_entity s (PRef i) c = Inr k) is))\<rparr>)"
    using Cons.IH [of ?f1] Cons.prems(1,2,3) by simp
  moreover have "(\<lambda>k.
         if filter (\<lambda>i. getattr_entity s (PRef i) c = Inr k) is = [] then parent_dict ?f1 k
         else PRef (last (filter (\<lambda>i. getattr_entity s (PRef i) c = Inr k) is)))
     = (\<lambda>k. if filter (\<lambda>i. getattr_entity s (PRef i) c = Inr k) (i # is) = [] then parent_dict f k
                else PRef (last (filter (\<lambda>i. getattr_entity s (PRef i) c = Inr k) (i # is))))"
    using v by auto
  ultimately show ?case
    using step by (simp add: bindE_def)
qed



lemma local_values_of_map:
  assumes "local_columns (property (path f)) = lc # lcs"
    and "\<forall>e \<in> set es. getattr_entity s e (name lc) = Inr (lv e)"
  shows "local_values_of s f es = Inr (map lv es)"
  using assms by (induction es) (simp_all add: local_values_def bindE_def)

lemma getattr_entity_column_value:
  "column_value s i c \<noteq> PNone \<Longrightarrow> getattr_entity s (PRef i) c = Inr (column_value s i c)"
  by (simp add: column_value_def getattr_entity_def split: option.splits)

lemma getattr_entity_Inr_column_value:
  "getattr_entity s (PRef i) c = Inr v \<Longrightarrow> column_value s i c = v"
  by (simp add: column_value_def getattr_entity_def split: option.splits)









section \<open>What populating changes\<close>

lemma same_but_refl [simp]: "same_but a s s"
  by (simp add: same_but_def)

lemma same_but_trans: "same_but a s s1 \<Longrightarrow> same_but a s1 s2 \<Longrightarrow> same_but a s s2"
  by (simp add: same_but_def)

lemma same_but_execute [simp]: "same_but a s (execute s)"
  by (simp add: same_but_def execute_def)

lemma set_committed_value_Inr:
  assumes "set_committed_value s e a x = Inr s'"
  obtains i b where "e = PRef i" and "a = Some b"
    and "s' = s\<lparr>identity_map := (identity_map s)
           (i := (identity_map s i)\<lparr>dict := (dict (identity_map s i))(b \<mapsto> x)\<rparr>)\<rparr>"
  using assms
  by (auto simp: set_committed_value_def split: pyval.splits option.splits)

lemma same_but_set_committed_value:
  "set_committed_value s e a x = Inr s' \<Longrightarrow> same_but a s s'"
  by (erule set_committed_value_Inr) (auto simp: same_but_def)

lemma query_count_set_committed_value:
  "set_committed_value s e a x = Inr s' \<Longrightarrow> query_count s' = query_count s"
  by (erule set_committed_value_Inr) auto

lemma getattr_entity_same_but:
  "same_but a s s' \<Longrightarrow> Some b \<noteq> a \<Longrightarrow> getattr_entity s' e b = getattr_entity s e b"
  by (cases e) (auto simp: getattr_entity_def same_but_def split: option.splits)


lemma bindE_hashable_Inr:
  "bindE m hashable = Inr v \<Longrightarrow> m = Inr v \<and> hashable v = Inr v"
  by (cases m) (auto simp: bindE_def dest: hashable_Inr)

lemma populate_entities_effect:
  assumes "populate_entities f es s = (None, s')"
    and "local_columns (property (path f)) = lc # lcs"
    and "name lc \<noteq> key (property (path f))"
  shows "same_but (Some (key (property (path f)))) s s' \<and> query_count s' = query_count s
    \<and> (\<forall>e \<in> set es. \<exists>j. e = PRef j)
    \<and> (\<forall>j. if PRef j \<in> set es
            then (\<exists>v. getattr_entity s (PRef j) (name lc) = Inr v
                   \<and> dict (identity_map s' j) (key (property (path f))) = Some (parent_dict f v))
            else dict (identity_map s' j) (key (property (path f)))
                   = dict (identity_map s j) (key (property (path f))))"
  using assms
proof (induction es arbitrary: s)
  case Nil
  then show ?case by simp
next
  case (Cons e es)
  let ?k = "key (property (path f))"
  from Cons.prems(1) obtain v s1 where
    lv: "bindE (local_values s f e) hashable = Inr v"
    and sc: "set_committed_value s e (Some ?k) (parent_dict f v) = Inr s1"
    and rest: "populate_entities f es s1 = (None, s')"
    by (auto split: sum.splits)
  from lv have g: "getattr_entity s e (name lc) = Inr v"
    using Cons.prems(2) by (auto simp: local_values_def dest: bindE_hashable_Inr)
  from sc obtain i where e: "e = PRef i"
    and s1: "s1 = s\<lparr>identity_map := (identity_map s)
           (i := (identity_map s i)\<lparr>dict := (dict (identity_map s i))(?k \<mapsto> parent_dict f v)\<rparr>)\<rparr>"
    by (auto elim: set_committed_value_Inr)
  have fr1: "same_but (Some ?k) s s1"
    using sc by (rule same_but_set_committed_value)
  have q1: "query_count s1 = query_count s" by (simp add: s1)
  note ih = Cons.IH [OF rest Cons.prems(2,3)]
  have ga: "getattr_entity s1 x (name lc) = getattr_entity s x (name lc)" for x
    using fr1 Cons.prems(3) by (auto intro: getattr_entity_same_but)
  have d1: "dict (identity_map s1 j) ?k =
      (if j = i then Some (parent_dict f v) else dict (identity_map s j) ?k)" for j
    by (simp add: s1)
  have "same_but (Some ?k) s s'"
    using fr1 ih by (blast intro: same_but_trans)
  moreover have "query_count s' = query_count s"
    using ih q1 by simp
  moreover have "\<forall>x \<in> set (e # es). \<exists>j. x = PRef j"
    using ih e by simp
  moreover have "\<forall>j. if PRef j \<in> set (e # es)
            then (\<exists>v. getattr_entity s (PRef j) (name lc) = Inr v
                   \<and> dict (identity_map s' j) ?k = Some (parent_dict f v))
            else dict (identity_map s' j) ?k = dict (identity_map s j) ?k"
  proof
    fix j
    from ih have c: "if PRef j \<in> set es
            then (\<exists>v. getattr_entity s1 (PRef j) (name lc) = Inr v
                   \<and> dict (identity_map s' j) ?k = Some (parent_dict f v))
            else dict (identity_map s' j) ?k = dict (identity_map s1 j) ?k"
      by blast
    show "if PRef j \<in> set (e # es)
            then (\<exists>v. getattr_entity s (PRef j) (name lc) = Inr v
                   \<and> dict (identity_map s' j) ?k = Some (parent_dict f v))
            else dict (identity_map s' j) ?k = dict (identity_map s j) ?k"
    proof (cases "PRef j \<in> set es")
      case True
      with c show ?thesis by (simp add: ga)
    next
      case False
      with c have "dict (identity_map s' j) ?k = dict (identity_map s1 j) ?k" by simp
      with False g e show ?thesis by (auto simp: d1)
    qed
  qed
  ultimately show ?case by blast
qed

lemma dict_append_Inr:
  assumes "dict_append f k i = Inr f'"
  shows "kind f' = kind f \<and> path f' = path f
    \<and> (\<forall>v. v \<noteq> k \<longrightarrow> parent_dict f' v = parent_dict f v)"
  using assms by (auto simp: dict_append_def split: pyval.splits)

lemma append_entity_Inr:
  assumes "append_entity s f r = Inr f'" and "remote_column_name s f = Inr (Some c)"
  shows "kind f' = kind f \<and> path f' = path f
    \<and> (\<forall>v. getattr_row s r c \<noteq> Inr v \<longrightarrow> parent_dict f' v = parent_dict f v)"
proof (cases r)
  case (EntityRow i)
  from assms(1,2) EntityRow obtain w where
    g: "getattr_entity s (PRef i) c = Inr w" and h: "hashable w = Inr w"
    and a: "(if kind f = ManyToOneFetcher
             then Inr (f\<lparr>parent_dict := (parent_dict f)(w := PRef i)\<rparr>)
             else dict_append f w i) = Inr f'"
    by (auto simp: append_entity_def bindE_def
        split: fetcher_class.splits sum.splits dest: hashable_Inr)
  from g EntityRow have "getattr_row s r c = Inr w" by (simp add: getattr_row_def)
  with a show ?thesis
    by (auto split: if_splits dest: dict_append_Inr)
next
  case (TupleRow i w)
  with assms(1,2) show ?thesis
    by (auto simp: append_entity_def bindE_def split: fetcher_class.splits)
qed

lemma remote_column_name_same:
  "kind f1 = kind f \<Longrightarrow> path f1 = path f \<Longrightarrow>
     remote_column_name s f1 = remote_column_name s f"
  by (auto simp: remote_column_name_def split: fetcher_class.splits)

lemma local_values_same:
  "path f1 = path f \<Longrightarrow> local_values s f1 e = local_values s f e"
  by (simp add: local_values_def)

lemma append_entities_Inr:
  assumes "append_entities s f rs = Inr f'" and "remote_column_name s f = Inr (Some c)"
  shows "kind f' = kind f \<and> path f' = path f
    \<and> (\<forall>v. (\<forall>r \<in> set rs. getattr_row s r c \<noteq> Inr v) \<longrightarrow> parent_dict f' v = parent_dict f v)"
  using assms
proof (induction rs arbitrary: f)
  case Nil
  then show ?case by simp
next
  case (Cons r rs)
  from Cons.prems(1) obtain f1 where a: "append_entity s f r = Inr f1"
    and b: "append_entities s f1 rs = Inr f'"
    by (auto simp: bindE_def split: sum.splits)
  note fr = append_entity_Inr [OF a Cons.prems(2)]
  then have "remote_column_name s f1 = Inr (Some c)"
    using Cons.prems(2) remote_column_name_same [of f1 f s] by simp
  from Cons.IH [OF b this] fr show ?case by simp
qed

lemma append_tuples_Inr:
  assumes "append_tuples f rs = Inr f'"
  shows "kind f' = kind f \<and> path f' = path f
    \<and> (\<forall>v. (\<forall>r \<in> set rs. \<forall>i. r \<noteq> TupleRow i v) \<longrightarrow> parent_dict f' v = parent_dict f v)"
  using assms
proof (induction rs arbitrary: f)
  case Nil
  then show ?case by simp
next
  case (Cons r rs)
  show ?case
  proof (cases r)
    case (EntityRow i)
    with Cons.prems show ?thesis by simp
  next
    case (TupleRow i parent_id)
    with Cons.prems obtain f1 where
      a: "dict_append f parent_id i = Inr f1" and b: "append_tuples f1 rs = Inr f'"
      by (auto simp: bindE_def split: sum.splits dest: hashable_Inr)
    from Cons.IH [OF b] dict_append_Inr [OF a] TupleRow show ?thesis by auto
  qed
qed

lemma getattr_row_row_key:
  "getattr_row s r c = Inr v \<Longrightarrow> row_key s c r = v"
  by (cases r) (auto simp: getattr_row_def row_key_def dest: getattr_entity_Inr_column_value)

lemma related_entities_remote_column:
  assumes "related_entities s f = Inr rs"
  obtains c where "remote_column_name s f = Inr (Some c)"
  using assms
  by (auto simp: related_entities_def condition_def bindE_def
      split: fetcher_class.splits sum.splits option.splits)

lemma fetch_Inr:
  assumes "fetch s f = (Inr f', s1)"
  obtains rs c where "related_entities s f = Inr rs"
    and "remote_column_name s f = Inr (Some c)"
    and "s1 = execute s" and "kind f' = kind f" and "path f' = path f"
    and "\<And>v. \<forall>r \<in> set rs. row_key s c r \<noteq> v \<Longrightarrow> parent_dict f' v = parent_dict f v"
proof -
  from assms obtain rs where rel: "related_entities s f = Inr rs"
    and app: "(if kind f = ManyToManyFetcher then append_tuples f rs
               else append_entities s f rs) = Inr f'"
    and s1: "s1 = execute s"
    by (auto simp: fetch_def split: sum.splits)
  from rel obtain c where rcn: "remote_column_name s f = Inr (Some c)"
    by (rule related_entities_remote_column)
  have fr: "kind f' = kind f \<and> path f' = path f
    \<and> (\<forall>v. (\<forall>r \<in> set rs. row_key s c r \<noteq> v) \<longrightarrow> parent_dict f' v = parent_dict f v)"
  proof (cases "kind f = ManyToManyFetcher")
    case True
    with app have "append_tuples f rs = Inr f'" by simp
    moreover have "\<forall>r \<in> set rs. \<forall>i. r \<noteq> TupleRow i v"
      if "\<forall>r \<in> set rs. row_key s c r \<noteq> v" for v
      using that by (auto simp: row_key_def)
    ultimately show ?thesis
      using append_tuples_Inr [of f rs f'] by blast
  next
    case False
    with app have "append_entities s f rs = Inr f'" by simp
    from append_entities_Inr [OF this rcn] show ?thesis
      by (metis getattr_row_row_key)
  qed
  show ?thesis
    using that [OF rel rcn s1] fr by blast
qed

lemma backref_assign_frame:
  "backref_assign f d rs s = (r, s') \<Longrightarrow>
     same_but (back_populates (property (path f))) s s' \<and> query_count s' = query_count s"
proof (induction rs arbitrary: s)
  case Nil
  then show ?case by simp
next
  case (Cons x rs)
  show ?case
  proof (cases "\<exists>i pid k xs s1. unpack x = Inr (i, pid)
      \<and> bindE (local_values s f (PRef i)) hashable = Inr k \<and> d k = Some xs
      \<and> set_committed_value s (PRef i) (back_populates (property (path f))) (PList xs) = Inr s1")
    case True
    then obtain i pid k xs s1 where u: "unpack x = Inr (i, pid)"
      and l: "bindE (local_values s f (PRef i)) hashable = Inr k" and dk: "d k = Some xs"
      and sc: "set_committed_value s (PRef i) (back_populates (property (path f))) (PList xs)
          = Inr s1"
      by blast
    with Cons.prems have "backref_assign f d rs s1 = (r, s')" by simp
    from Cons.IH [OF this] same_but_set_committed_value [OF sc]
      query_count_set_committed_value [OF sc]
    show ?thesis by (auto intro: same_but_trans)
  next
    case False
    with Cons.prems have "s' = s"
      by (auto split: sum.splits option.splits prod.splits)
    then show ?thesis by simp
  qed
qed

lemma populate_backrefs_method_frame:
  "populate_backrefs_method s f rs = (r, s') \<Longrightarrow>
     same_but (back_populates (property (path f))) s s'"
  by (auto simp: populate_backrefs_method_def split: sum.splits
      dest!: backref_assign_frame intro: same_but_trans [OF same_but_execute]
        same_but_trans [OF same_but_execute same_but_execute]
        same_but_trans [OF same_but_trans [OF same_but_execute same_but_execute]])

lemma populate_entities_no_local_column:
  "local_columns (property (path f)) = [] \<Longrightarrow> es \<noteq> [] \<Longrightarrow>
     populate_entities f es s \<noteq> (None, s')"
  by (cases es) (simp_all add: local_values_def bindE_def)

lemma populate_None:
  assumes "populate s f = (None, s2)"
  obtains s1 where "populate_entities f (entities (path f)) s = (None, s1)"
    and "same_but (back_populates (property (path f))) s1 s2"
proof -
  from assms obtain s1 where pe: "populate_entities f (entities (path f)) s = (None, s1)"
    and br: "(if populate_backrefs (path f) then
             (case related_entities s1 f of
                Inl err \<Rightarrow> (Some err, s1)
              | Inr rs \<Rightarrow> populate_backrefs_method s1 f rs)
           else (None, s1)) = (None, s2)"
    by (auto simp: populate_def split: prod.splits option.splits)
  have "same_but (back_populates (property (path f))) s1 s2"
    using br by (auto split: if_splits sum.splits dest: populate_backrefs_method_frame)
  with pe show ?thesis by (rule that)
qed

section \<open>The composite loop and the siblings' own loops\<close>

lemma composite_rows_loop_two:
  assumes "remote_column_name s fa = Inr (Some ca)" and "remote_column_name s fb = Inr (Some cb)"
    and "\<forall>i \<in> set is. (\<exists>v. getattr_entity s (PRef i) ca = Inr v)
                      \<and> (\<exists>v. getattr_entity s (PRef i) cb = Inr v)"
    and "append_entities s fa
           (map EntityRow (filter (\<lambda>i. column_value s i ca \<noteq> PNone) is)) = Inr fa'"
    and "append_entities s fb
           (map EntityRow (filter (\<lambda>i. column_value s i cb \<noteq> PNone) is)) = Inr fb'"
  shows "composite_rows_loop s [fa, fb] (map EntityRow is) = Inr [fa', fb']"
  using assms
proof (induction "is" arbitrary: fa fb)
  case Nil
  then show ?case by simp
next
  case (Cons i "is")
  from Cons.prems(3) obtain va vb where va: "getattr_entity s (PRef i) ca = Inr va"
    and vb: "getattr_entity s (PRef i) cb = Inr vb"
    by auto
  have cva: "column_value s i ca = va" and cvb: "column_value s i cb = vb"
    using va vb by (auto dest: getattr_entity_Inr_column_value)
  obtain fa1 where a1: "(if va \<noteq> PNone then append_entity s fa (EntityRow i) else Inr fa) = Inr fa1"
    and a2: "append_entities s fa1
           (map EntityRow (filter (\<lambda>i. column_value s i ca \<noteq> PNone) is)) = Inr fa'"
    using Cons.prems(4) cva by (auto simp: bindE_def split: sum.splits if_splits)
  obtain fb1 where b1: "(if vb \<noteq> PNone then append_entity s fb (EntityRow i) else Inr fb) = Inr fb1"
    and b2: "append_entities s fb1
           (map EntityRow (filter (\<lambda>i. column_value s i cb \<noteq> PNone) is)) = Inr fb'"
    using Cons.prems(5) cvb by (auto simp: bindE_def split: sum.splits if_splits)
  have ra: "remote_column_name s fa1 = Inr (Some ca)"
    using a1 Cons.prems(1) append_entity_Inr [of s fa "EntityRow i" fa1 ca]
      remote_column_name_same [of fa1 fa s]
    by (auto split: if_splits)
  have rb: "remote_column_name s fb1 = Inr (Some cb)"
    using b1 Cons.prems(2) append_entity_Inr [of s fb "EntityRow i" fb1 cb]
      remote_column_name_same [of fb1 fb s]
    by (auto split: if_splits)
  have step: "composite_fetchers_loop s (EntityRow i) [fa, fb] = Inr [fa1, fb1]"
    using Cons.prems(1,2) va vb a1 b1 by (simp add: bindE_def getattr_row_def)
  have "composite_rows_loop s [fa1, fb1] (map EntityRow is) = Inr [fa', fb']"
    using Cons.IH [OF ra rb _ a2 b2] Cons.prems(3) by simp
  with step show ?case by (simp add: bindE_def)
qed

lemma append_entities_base:
  assumes k: "k \<noteq> ManyToManyFetcher"
    and rcn: "remote_column_name s (Fetcher k p) = Inr (Some c)"
    and ok: "\<forall>i \<in> set is. \<exists>v. getattr_entity s (PRef i) c = Inr v \<and> hashable v = Inr v"
  shows "\<exists>f'. append_entities s (Fetcher k p) (map EntityRow is) = Inr f'
     \<and> kind f' = k \<and> path f' = p
     \<and> (\<forall>v. parent_dict f' v =
           (let matching = filter (\<lambda>i. column_value s i c = v) is
            in if k = ManyToOneFetcher
               then (if matching = [] then PNone else PRef (last matching))
               else PList (map PRef matching)))"
proof -
  let ?f = "Fetcher k p"
  have key: "filter (\<lambda>i. getattr_entity s (PRef i) c = Inr v) is
      = filter (\<lambda>i. column_value s i c = v) is" for v
  proof (rule filter_cong [OF refl])
    fix i assume "i \<in> set is"
    with ok obtain w where "getattr_entity s (PRef i) c = Inr w" by blast
    then show "(getattr_entity s (PRef i) c = Inr v) = (column_value s i c = v)"
      using getattr_entity_Inr_column_value by fastforce
  qed
  show ?thesis
  proof (cases "k = ManyToOneFetcher")
    case True
    have "append_entities s ?f (map EntityRow is) =
         Inr (?f\<lparr>parent_dict :=
           \<lambda>v. if filter (\<lambda>i. getattr_entity s (PRef i) c = Inr v) is = []
                then parent_dict ?f v
                else PRef (last (filter (\<lambda>i. getattr_entity s (PRef i) c = Inr v) is))\<rparr>)"
      using append_entities_many_to_one [of ?f s c "is"] True rcn ok by simp
    then show ?thesis
      unfolding key using True by (simp add: Let_def cong: if_cong)
  next
    case False
    with k have k1: "k = OneToManyFetcher" by (cases k) auto
    then have "parent_dict ?f = (\<lambda>k. PList ((\<lambda>_. []) k))" by simp
    then have "append_entities s ?f (map EntityRow is) =
         Inr (?f\<lparr>parent_dict :=
           \<lambda>v. PList ([] @ map PRef (filter (\<lambda>i. getattr_entity s (PRef i) c = Inr v) is))\<rparr>)"
      using append_entities_one_to_many [of ?f s c "is" "\<lambda>_. []"] k1 rcn ok by simp
    then show ?thesis
      unfolding key using k1 by (simp add: Let_def)
  qed
qed

lemma condition_in_list:
  assumes k: "k \<noteq> ManyToManyFetcher"
    and lc: "local_columns (property p) = lc # lcs"
    and rc: "remote_side (property p) = rc # rcs"
    and col: "class_attrs s (model p) (name rc) = Some (ColumnProperty col)"
    and lv: "\<forall>e \<in> set (entities p). getattr_entity s e (name lc) = Inr (lv e)"
  shows "remote_column_name s (Fetcher k p) = Inr (Some (name rc))"
    and "condition s (Fetcher k p) = Inr (InList (name rc) (map lv (entities p)))"
proof -
  let ?f = "Fetcher k p"
  have lvl: "local_values_list s ?f = Inr (map lv (entities p))"
    using local_values_of_map [of ?f lc lcs "entities p" s lv] lc lv
    by (simp add: local_values_list_def)
  show rcn: "remote_column_name s ?f = Inr (Some (name rc))"
    using k rc by (cases k) (simp_all add: remote_column_name_def)
  show "condition s ?f = Inr (InList (name rc) (map lv (entities p)))"
    using rcn col lvl by (simp add: condition_def bindE_def getattr_class_def)
qed

lemma composite_agree:
  assumes ka: "ka \<noteq> ManyToManyFetcher" and kb: "kb \<noteq> ManyToManyFetcher"
    and m: "model pa = model pb"
    and esa: "entities pa = PRef ia # esa" and esb: "entities pb = PRef ib # esb"
    and lca: "local_columns (property pa) = lca # lcsa"
    and lcb: "local_columns (property pb) = lcb # lcsb"
    and rca: "remote_side (property pa) = rca # rcsa"
    and rcb: "remote_side (property pb) = rcb # rcsb"
    and cola: "class_attrs s (model pa) (name rca) = Some (ColumnProperty cola)"
    and colb: "class_attrs s (model pb) (name rcb) = Some (ColumnProperty colb)"
    and lva: "\<forall>e \<in> set (entities pa). getattr_entity s e (name lca) = Inr (lva e)"
    and lvb: "\<forall>e \<in> set (entities pb). getattr_entity s e (name lcb) = Inr (lvb e)"
    and rows: "\<forall>i \<in> set (rows s (model pa)).
        (\<exists>v. getattr_entity s (PRef i) (name rca) = Inr v \<and> hashable v = Inr v)
        \<and> (\<exists>v. getattr_entity s (PRef i) (name rcb) = Inr v \<and> hashable v = Inr v)"
  shows "\<exists>fa' fb' fa'' fb''.
      composite_fetch s [Fetcher ka pa, Fetcher kb pb] = (Inr [fa', fb'], execute s)
      \<and> fetch s (Fetcher ka pa) = (Inr fa'', execute s)
      \<and> fetch s (Fetcher kb pb) = (Inr fb'', execute s)
      \<and> kind fa' = ka \<and> path fa' = pa \<and> kind fa'' = ka \<and> path fa'' = pa
      \<and> kind fb' = kb \<and> path fb' = pb \<and> kind fb'' = kb \<and> path fb'' = pb
      \<and> (\<forall>e \<in> set (entities pa). parent_dict fa' (lva e) = parent_dict fa'' (lva e))
      \<and> (\<forall>e \<in> set (entities pb). parent_dict fb' (lvb e) = parent_dict fb'' (lvb e))"
proof -
  let ?fa = "Fetcher ka pa" and ?fb = "Fetcher kb pb"
  let ?ca = "name rca" and ?cb = "name rcb"
  let ?A = "InList ?ca (map lva (entities pa))" and ?B = "InList ?cb (map lvb (entities pb))"
  define R where "R = filter (holds s (OrList [?A, ?B])) (rows s (model pa))"
  define Ra where "Ra = filter (\<lambda>i. column_value s i ?ca \<noteq> PNone) R"
  define Rb where "Rb = filter (\<lambda>i. column_value s i ?cb \<noteq> PNone) R"
  define RA where "RA = filter (holds s ?A) (rows s (model pa))"
  define RB where "RB = filter (holds s ?B) (rows s (model pb))"
  note ca = condition_in_list [OF ka lca rca cola lva]
  note cb = condition_in_list [OF kb lcb rcb colb lvb]
  have sa: "path_session (path ?fa) = Inr ()" and sb: "path_session (path ?fb) = Inr ()"
    using esa esb by (simp_all add: path_session_def)
  have okR: "\<forall>i \<in> set R.
        (\<exists>v. getattr_entity s (PRef i) ?ca = Inr v \<and> hashable v = Inr v)
        \<and> (\<exists>v. getattr_entity s (PRef i) ?cb = Inr v \<and> hashable v = Inr v)"
    using rows by (simp add: R_def)
  have cre: "composite_related_entities s [?fa, ?fb] = Inr (map EntityRow R)"
    using ca(2) cb(2) sa
    by (simp add: composite_related_entities_def composite_session_def composite_model_def
        composite_condition_def bindE_def R_def)
  have "\<forall>i \<in> set Ra. \<exists>v. getattr_entity s (PRef i) ?ca = Inr v \<and> hashable v = Inr v"
    using okR by (simp add: Ra_def)
  from append_entities_base [OF ka ca(1) this]
  obtain fa' where a1: "append_entities s ?fa (map EntityRow Ra) = Inr fa'"
    and a2: "kind fa' = ka" "path fa' = pa"
    and a3: "\<forall>v. parent_dict fa' v =
           (let matching = filter (\<lambda>i. column_value s i ?ca = v) Ra
            in if ka = ManyToOneFetcher
               then (if matching = [] then PNone else PRef (last matching))
               else PList (map PRef matching))"
    by blast
  have "\<forall>i \<in> set Rb. \<exists>v. getattr_entity s (PRef i) ?cb = Inr v \<and> hashable v = Inr v"
    using okR by (simp add: Rb_def)
  from append_entities_base [OF kb cb(1) this]
  obtain fb' where b1: "append_entities s ?fb (map EntityRow Rb) = Inr fb'"
    and b2: "kind fb' = kb" "path fb' = pb"
    and b3: "\<forall>v. parent_dict fb' v =
           (let matching = filter (\<lambda>i. column_value s i ?cb = v) Rb
            in if kb = ManyToOneFetcher
               then (if matching = [] then PNone else PRef (last matching))
               else PList (map PRef matching))"
    by blast
  have "\<forall>i \<in> set RA. \<exists>v. getattr_entity s (PRef i) ?ca = Inr v \<and> hashable v = Inr v"
    using rows by (simp add: RA_def)
  from append_entities_base [OF ka ca(1) this]
  obtain fa'' where c1: "append_entities s ?fa (map EntityRow RA) = Inr fa''"
    and c2: "kind fa'' = ka" "path fa'' = pa"
    and c3: "\<forall>v. parent_dict fa'' v =
           (let matching = filter (\<lambda>i. column_value s i ?ca = v) RA
            in if ka = ManyToOneFetcher
               then (if matching = [] then PNone else PRef (last matching))
               else PList (map PRef matching))"
    by blast
  have "\<forall>i \<in> set RB. \<exists>v. getattr_entity s (PRef i) ?cb = Inr v \<and> hashable v = Inr v"
    using rows m by (simp add: RB_def)
  from append_entities_base [OF kb cb(1) this]
  obtain fb'' where d1: "append_entities s ?fb (map EntityRow RB) = Inr fb''"
    and d2: "kind fb'' = kb" "path fb'' = pb"
    and d3: "\<forall>v. parent_dict fb'' v =
           (let matching = filter (\<lambda>i. column_value s i ?cb = v) RB
            in if kb = ManyToOneFetcher
               then (if matching = [] then PNone else PRef (last matching))
               else PList (map PRef matching))"
    by blast
  have okR': "\<forall>i \<in> set R. (\<exists>v. getattr_entity s (PRef i) ?ca = Inr v)
                      \<and> (\<exists>v. getattr_entity s (PRef i) ?cb = Inr v)"
    using okR by blast
  have loop: "composite_rows_loop s [?fa, ?fb] (map EntityRow R) = Inr [fa', fb']"
    by (rule composite_rows_loop_two [OF ca(1) cb(1) okR' a1 [unfolded Ra_def] b1 [unfolded Rb_def]])
  have cf: "composite_fetch s [?fa, ?fb] = (Inr [fa', fb'], execute s)"
    using cre loop by (simp add: composite_fetch_def)
  have fa: "fetch s ?fa = (Inr fa'', execute s)"
    using ka ca(2) sa c1
    by (cases ka) (simp_all add: fetch_def related_entities_def bindE_def RA_def)
  have fb: "fetch s ?fb = (Inr fb'', execute s)"
    using kb cb(2) sb d1
    by (cases kb) (simp_all add: fetch_def related_entities_def bindE_def RB_def)
  have ea: "filter (\<lambda>i. column_value s i ?ca = v) Ra = filter (\<lambda>i. column_value s i ?ca = v) RA"
    if "v \<in> lva ` set (entities pa)" for v
    using that unfolding Ra_def R_def RA_def
    by (auto simp: sql_in_def intro!: filter_cong)
  have eb: "filter (\<lambda>i. column_value s i ?cb = v) Rb = filter (\<lambda>i. column_value s i ?cb = v) RB"
    if "v \<in> lvb ` set (entities pb)" for v
    using that m unfolding Rb_def R_def RB_def
    by (auto simp: sql_in_def intro!: filter_cong)
  have "\<forall>e \<in> set (entities pa). parent_dict fa' (lva e) = parent_dict fa'' (lva e)"
    using a3 c3 ea by simp
  moreover have "\<forall>e \<in> set (entities pb). parent_dict fb' (lvb e) = parent_dict fb'' (lvb e)"
    using b3 d3 eb by simp
  ultimately show ?thesis
    using cf fa fb a2 b2 c2 d2 by blast
qed

lemma populate_entities_succeeds:
  assumes lc: "local_columns (property (path f)) = lc # lcs"
    and ne: "name lc \<noteq> key (property (path f))"
    and ok: "\<forall>e \<in> set es.
        (\<exists>v. getattr_entity s e (name lc) = Inr v \<and> hashable v = Inr v)
        \<and> (\<exists>j. e = PRef j
              \<and> class_attrs s (class_name (identity_map s j)) (key (property (path f))) \<noteq> None)"
  shows "\<exists>s'. populate_entities f es s = (None, s')"
  using ok
proof (induction es arbitrary: s)
  case Nil
  show ?case by simp
next
  case (Cons e es)
  let ?key = "key (property (path f))"
  from Cons.prems obtain v j where g: "getattr_entity s e (name lc) = Inr v"
    and h: "hashable v = Inr v" and e: "e = PRef j"
    and ca: "class_attrs s (class_name (identity_map s j)) ?key \<noteq> None"
    by auto
  have l: "bindE (local_values s f e) hashable = Inr v"
    using g h lc by (simp add: local_values_def bindE_def)
  obtain s1 where sc: "set_committed_value s e (Some ?key) (parent_dict f v) = Inr s1"
    using ca e by (auto simp: set_committed_value_def)
  have sb: "same_but (Some ?key) s s1"
    using sc by (rule same_but_set_committed_value)
  have "\<forall>e \<in> set es.
        (\<exists>v. getattr_entity s1 e (name lc) = Inr v \<and> hashable v = Inr v)
        \<and> (\<exists>j. e = PRef j \<and> class_attrs s1 (class_name (identity_map s1 j)) ?key \<noteq> None)"
  proof
    fix x assume x: "x \<in> set es"
    have "getattr_entity s1 x (name lc) = getattr_entity s x (name lc)"
      using getattr_entity_same_but [OF sb, of "name lc"] ne by simp
    moreover have "class_attrs s1 = class_attrs s"
      and "\<And>j. class_name (identity_map s1 j) = class_name (identity_map s j)"
      using sb by (simp_all add: same_but_def)
    ultimately show "(\<exists>v. getattr_entity s1 x (name lc) = Inr v \<and> hashable v = Inr v)
        \<and> (\<exists>j. x = PRef j \<and> class_attrs s1 (class_name (identity_map s1 j)) ?key \<noteq> None)"
      using Cons.prems x by simp
  qed
  from Cons.IH [OF this] obtain s' where "populate_entities f es s1 = (None, s')" by blast
  with l sc show ?case by simp
qed

lemma populate_sets:
  assumes p: "path f = p" and nb: "\<not> populate_backrefs p"
    and lc: "local_columns (property p) = lc # lcs"
    and ne: "name lc \<noteq> key (property p)"
    and ok: "\<forall>e \<in> set (entities p).
        getattr_entity s e (name lc) = Inr (lv e) \<and> hashable (lv e) = Inr (lv e)
        \<and> (\<exists>j. e = PRef j
              \<and> class_attrs s (class_name (identity_map s j)) (key (property p)) \<noteq> None)"
  shows "\<exists>s'. populate s f = (None, s') \<and> same_but (Some (key (property p))) s s'
     \<and> query_count s' = query_count s
     \<and> (\<forall>j. PRef j \<in> set (entities p) \<longrightarrow>
           dict (identity_map s' j) (key (property p)) = Some (parent_dict f (lv (PRef j))))"
proof -
  have lc': "local_columns (property (path f)) = lc # lcs"
    and ne': "name lc \<noteq> key (property (path f))"
    using p lc ne by simp_all
  have "\<forall>e \<in> set (entities p).
        (\<exists>v. getattr_entity s e (name lc) = Inr v \<and> hashable v = Inr v)
        \<and> (\<exists>j. e = PRef j
              \<and> class_attrs s (class_name (identity_map s j)) (key (property (path f))) \<noteq> None)"
    using ok p by auto
  from populate_entities_succeeds [OF lc' ne' this]
  obtain s' where pe: "populate_entities f (entities p) s = (None, s')" by blast
  have pop: "populate s f = (None, s')"
    using pe p nb by (simp add: populate_def)
  from populate_entities_effect [OF pe lc' ne']
  have sb: "same_but (Some (key (property p))) s s'" and qc: "query_count s' = query_count s"
    and eff: "\<forall>j. PRef j \<in> set (entities p) \<longrightarrow>
        (\<exists>v. getattr_entity s (PRef j) (name lc) = Inr v
           \<and> dict (identity_map s' j) (key (property p)) = Some (parent_dict f v))"
    using p by (simp_all split: if_splits)
  have "dict (identity_map s' j) (key (property p)) = Some (parent_dict f (lv (PRef j)))"
    if "PRef j \<in> set (entities p)" for j
    using eff that ok by fastforce
  with pop sb qc show ?thesis by blast
qed


lemma hyps_same_but:
  assumes sb: "same_but a s t" and c: "Some c \<noteq> a"
    and ok: "\<forall>e \<in> set es.
        getattr_entity s e c = Inr (lv e) \<and> hashable (lv e) = Inr (lv e)
        \<and> (\<exists>j. e = PRef j \<and> class_attrs s (class_name (identity_map s j)) k \<noteq> None)"
  shows "\<forall>e \<in> set es.
        getattr_entity t e c = Inr (lv e) \<and> hashable (lv e) = Inr (lv e)
        \<and> (\<exists>j. e = PRef j \<and> class_attrs t (class_name (identity_map t j)) k \<noteq> None)"
proof -
  have "class_attrs t = class_attrs s"
    and "\<And>j. class_name (identity_map t j) = class_name (identity_map s j)"
    using sb by (simp_all add: same_but_def)
  then show ?thesis
    using ok getattr_entity_same_but [OF sb c] by simp
qed

section \<open>The loops of backref population\<close>











section \<open>Properties\<close>

text \<open>
  C7. The fetcher class of a path is chosen by this rule: the many-to-many fetcher when
  the relationship has a secondary table, else the many-to-one fetcher when its
  direction is many-to-one, else the one-to-many fetcher. Nothing else is consulted:
  the choice is the same for every path whose relationship has the same secondary
  table and direction, whatever its other fields, its entities and its backref flag,
  and it is the class of the fetcher that the path builds.
\<close>

theorem fetcher_class_rule:
  "fetcher_class p =
     (if secondary (property p) \<noteq> None then ManyToManyFetcher
      else if direction (property p) = MANYTOONE then ManyToOneFetcher
      else OneToManyFetcher)
   \<and> fetcher_class p =
       fetcher_class
         \<lparr>property =
            \<lparr>key = k, mapper_class = m, secondary = secondary (property p),
             secondaryjoin = sj, direction = direction (property p),
             local_columns = lc, remote_side = rs, back_populates = bp\<rparr>,
          entities = es, populate_backrefs = pb\<rparr>
   \<and> kind (path_fetcher p) = fetcher_class p"
  by (simp add: fetcher_class_def path_fetcher_def Fetcher_def)

text \<open>
  C9. With an empty entity list \<open>batch_fetch\<close> returns at once, for every list of path
  specifiers: it raises nothing and leaves the session as it was, so no query is
  executed and no entity is changed.
\<close>

theorem batch_fetch_no_entities:
  "batch_fetch s [] aps = (None, s)
   \<and> query_count (snd (batch_fetch s [] aps)) = query_count s
   \<and> identity_map (snd (batch_fetch s [] aps)) = identity_map s"
  by (simp add: batch_fetch_def)

text \<open>
  C10. When \<open>Path.parse\<close> follows the leading attributes \<open>pre\<close> of a dotted string path
  from a non-empty list of root entities and the entities gathered after them are
  none, it raises \<open>IndexError\<close> (the call for the rest of the path reads \<open>entities[0]\<close>
  of the empty list), whatever the rest \<open>b\<close> of the path is; \<open>batch_fetch\<close> then raises
  the same error, with or without \<open>with_backrefs\<close>, and leaves the session as it was.
  The deeper attribute is not treated as a no-op.
\<close>

theorem parse_empty_hop:
  assumes "pre \<noteq> []" and "\<forall>a \<in> set pre. CHR ''.'' \<notin> set a"
    and "follow s es pre = Inr []" and "es \<noteq> []"
  shows "parse s es (Str (join_dot (pre @ [b]))) pb = Inl IndexError
       \<and> batch_fetch s es (Str (join_dot (pre @ [b])) # aps) = (Some IndexError, s)
       \<and> batch_fetch s es (with_backrefs (Str (join_dot (pre @ [b]))) # aps)
           = (Some IndexError, s)"
proof -
  have p: "parse s es (Str (join_dot (pre @ [b]))) pb = Inl IndexError" for pb
    using assms(2,3) by (simp add: parse_follow bindE_def parse_no_entities)
  show ?thesis
    using p [of pb] p [of False] p [of True] assms(4)
    by (simp add: batch_fetch_def FetchingCoordinator_def)
qed

theorem parse_empty_hop_witness:
  "follow example_session [PRef 2] [''phones''] = Inr []
   \<and> parse example_session [PRef 2] (Str ''phones.user'') False = Inl IndexError
   \<and> batch_fetch example_session [PRef 2] [Str ''phones.user'']
       = (Some IndexError, example_session)"
proof -
  have f: "follow example_session [PRef 2] [''phones''] = Inr []"
    by (simp add: example_defs getattr_entity_def bindE_def)
  show ?thesis
    using parse_empty_hop
      [of "[''phones'']" example_session "[PRef 2]" "''user''" False "[]"] f
    by simp
qed

text \<open>
  C2, as the code has it. For a dotted string path \<open>a.b\<close> whose first attribute \<open>a\<close> is
  a loaded list on every root entity, \<open>Path.parse\<close> resolves the rest \<open>b\<close> of the path
  once, against the concatenation, in the order of the roots, of all those lists, and
  not against each root on its own.
\<close>

theorem parse_dotted_union:
  assumes "CHR ''.'' \<notin> set a"
    and "\<forall>e \<in> set es. \<exists>xs. getattr_entity s e a = Inr (PList xs)"
  shows "parse s es (Str (a @ CHR ''.'' # b)) pb =
         parse s (concat (map (loaded_list s a) es)) (Str b) pb"
  using assms by (simp add: parse_dotted extend_related_lists bindE_def)

theorem parse_dotted_union_witness:
  "getattr_entity example_session (PRef 1) ''phones'' = Inr (PList [PRef 11, PRef 12])
   \<and> getattr_entity example_session (PRef 2) ''phones'' = Inr (PList [])
   \<and> parse example_session [PRef 1, PRef 2] (Str ''phones.user'') False =
     Inr \<lparr>property = Phone_user, entities = [PRef 11, PRef 12], populate_backrefs = False\<rparr>"
proof -
  have l: "\<forall>e \<in> set [PRef 1, PRef 2].
      \<exists>xs. getattr_entity example_session e ''phones'' = Inr (PList xs)"
    by (simp add: example_defs getattr_entity_def)
  have c: "concat (map (loaded_list example_session ''phones'') [PRef 1, PRef 2])
      = [PRef 11, PRef 12]"
    by (simp add: loaded_list_def example_defs getattr_entity_def)
  have "parse example_session [PRef 11, PRef 12] (Str ''user'') False =
     Inr \<lparr>property = Phone_user, entities = [PRef 11, PRef 12], populate_backrefs = False\<rparr>"
    by (simp add: parse_plain bindE_def getattr_class_def class_of_def Path_def
        example_session_def example_entities_def example_attrs_def)
  moreover have "getattr_entity example_session (PRef 1) ''phones''
      = Inr (PList [PRef 11, PRef 12])"
    and "getattr_entity example_session (PRef 2) ''phones'' = Inr (PList [])"
    by (simp_all add: example_defs getattr_entity_def)
  ultimately show ?thesis
    using parse_dotted_union
      [of "''phones''" "[PRef 1, PRef 2]" example_session "''user''" False] l c
    by simp
qed

text \<open>
  C2 as the specification states it fails: a null value of the first attribute is
  not skipped. Phone 13 has no user and phone 11 has user 1; for the path
  \<open>user.phones\<close> the specification resolves \<open>phones\<close> against user 1, while
  \<open>Path.parse\<close> raises \<open>TypeError\<close>, since \<open>extend\<close> does not accept \<open>None\<close>.
\<close>

theorem parse_null_not_skipped:
  "parse example_session [PRef 13, PRef 11] (Str ''user.phones'') False = Inl TypeError
   \<and> parse example_session
        (spec_related_entities example_session ''user'' [PRef 13, PRef 11])
        (Str ''phones'') False
      = Inr \<lparr>property = User_phones, entities = [PRef 1], populate_backrefs = False\<rparr>"
proof -
  have "extend_related example_session ''user'' [] [PRef 13, PRef 11] = Inl TypeError"
    by (simp add: example_defs getattr_entity_def)
  then have a: "parse example_session [PRef 13, PRef 11] (Str ''user.phones'') False
      = Inl TypeError"
    using parse_dotted [of "''user''" example_session "[PRef 13, PRef 11]" "''phones''" False]
    by (simp add: bindE_def)
  have "spec_related_entities example_session ''user'' [PRef 13, PRef 11] = [PRef 1]"
    by (simp add: example_defs getattr_entity_def)
  then have b: "parse example_session
        (spec_related_entities example_session ''user'' [PRef 13, PRef 11])
        (Str ''phones'') False
      = Inr \<lparr>property = User_phones, entities = [PRef 1], populate_backrefs = False\<rparr>"
    by (simp add: parse_plain bindE_def getattr_class_def class_of_def Path_def
        example_session_def example_entities_def example_attrs_def)
  from a b show ?thesis by simp
qed




text \<open>
  C1, as the code has it. Let a path have a non-empty entity list (whose first entry
  is an entity of the session) and a fetcher that is not the many-to-many one, and let
  every entity have a hashable value \<open>lv e\<close> of the first local column. Then
  \<open>local_values_list\<close> is the list of these values, \<open>condition\<close> is the predicate
  "the value of the first remote column is not null and is among them", and \<open>fetch\<close>
  executes one query and passes exactly the rows of the related class that satisfy
  the predicate to \<open>append_entity\<close>, in query order, each under its value of the
  remote column: afterwards \<open>parent_dict\<close> holds under every key the list of these
  rows (one-to-many) or the last of them (many-to-one), and the default (the empty
  list, \<open>None\<close>) where there is none.
\<close>

theorem fetch_matching_rows:
  assumes k: "k \<noteq> ManyToManyFetcher"
    and es: "entities p = PRef i0 # es0"
    and lc: "local_columns (property p) = lc # lcs"
    and rc: "remote_side (property p) = rc # rcs"
    and col: "class_attrs s (model p) (name rc) = Some (ColumnProperty col)"
    and lv: "\<forall>e \<in> set (entities p).
               getattr_entity s e (name lc) = Inr (lv e) \<and> hashable (lv e) = Inr (lv e)"
  shows "local_values_list s (Fetcher k p) = Inr (map lv (entities p))
    \<and> condition s (Fetcher k p) = Inr (InList (name rc) (map lv (entities p)))
    \<and> holds s (InList (name rc) (map lv (entities p))) i =
        (column_value s i (name rc) \<noteq> PNone
         \<and> column_value s i (name rc) \<in> lv ` set (entities p))
    \<and> (\<exists>f'. fetch s (Fetcher k p) = (Inr f', execute s)
          \<and> kind f' = k \<and> path f' = p
          \<and> (\<forall>v. parent_dict f' v =
               (let matching = filter (\<lambda>i. column_value s i (name rc) = v)
                      (filter (holds s (InList (name rc) (map lv (entities p))))
                         (rows s (model p)))
                in if k = ManyToOneFetcher
                   then (if matching = [] then PNone else PRef (last matching))
                   else PList (map PRef matching))))"
proof -
  let ?f = "Fetcher k p"
  let ?vs = "map lv (entities p)"
  let ?c = "name rc"
  define R where "R = filter (holds s (InList ?c ?vs)) (rows s (model p))"
  have lvl: "local_values_list s ?f = Inr ?vs"
    using local_values_of_map [of ?f lc lcs "entities p" s lv] lc lv
    by (simp add: local_values_list_def)
  have rcn: "remote_column_name s ?f = Inr (Some ?c)"
    using k rc by (cases k) (simp_all add: remote_column_name_def)
  have cond: "condition s ?f = Inr (InList ?c ?vs)"
    using rcn col lvl by (simp add: condition_def bindE_def getattr_class_def)
  have sess: "path_session (path ?f) = Inr ()"
    using es by (simp add: path_session_def)
  have rel: "related_entities s ?f = Inr (map EntityRow R)"
    using k cond sess
    by (cases k) (simp_all add: related_entities_def bindE_def R_def)
  have ok: "\<forall>i \<in> set R. \<exists>v. getattr_entity s (PRef i) ?c = Inr v \<and> hashable v = Inr v"
  proof
    fix i assume "i \<in> set R"
    then have "sql_in (column_value s i ?c) ?vs" by (simp add: R_def)
    then have ne: "column_value s i ?c \<noteq> PNone" and mem: "column_value s i ?c \<in> set ?vs"
      by (simp_all add: sql_in_def)
    from mem lv have "hashable (column_value s i ?c) = Inr (column_value s i ?c)" by auto
    with getattr_entity_column_value [OF ne]
    show "\<exists>v. getattr_entity s (PRef i) ?c = Inr v \<and> hashable v = Inr v" by blast
  qed
  have key: "filter (\<lambda>i. getattr_entity s (PRef i) ?c = Inr v) R
      = filter (\<lambda>i. column_value s i ?c = v) R" for v
  proof (rule filter_cong [OF refl])
    fix i assume "i \<in> set R"
    with ok obtain w where "getattr_entity s (PRef i) ?c = Inr w" by blast
    then show "(getattr_entity s (PRef i) ?c = Inr v) = (column_value s i ?c = v)"
      using getattr_entity_Inr_column_value by fastforce
  qed
  have app: "append_entities s ?f (map EntityRow R) =
      Inr (?f\<lparr>parent_dict := \<lambda>v.
           let matching = filter (\<lambda>i. column_value s i ?c = v) R
           in if k = ManyToOneFetcher
              then (if matching = [] then PNone else PRef (last matching))
              else PList (map PRef matching)\<rparr>)"
  proof (cases "k = ManyToOneFetcher")
    case True
    have "append_entities s ?f (map EntityRow R) =
         Inr (?f\<lparr>parent_dict :=
           \<lambda>v. if filter (\<lambda>i. getattr_entity s (PRef i) ?c = Inr v) R = []
                then parent_dict ?f v
                else PRef (last (filter (\<lambda>i. getattr_entity s (PRef i) ?c = Inr v) R))\<rparr>)"
      using append_entities_many_to_one [of ?f s ?c R] True rcn ok by simp
    then show ?thesis
      unfolding key using True by (simp add: Let_def cong: if_cong)
  next
    case False
    with k have k1: "k = OneToManyFetcher" by (cases k) auto
    then have "parent_dict ?f = (\<lambda>k. PList ((\<lambda>_. []) k))" by simp
    then have "append_entities s ?f (map EntityRow R) =
         Inr (?f\<lparr>parent_dict :=
           \<lambda>v. PList ([] @ map PRef (filter (\<lambda>i. getattr_entity s (PRef i) ?c = Inr v) R))\<rparr>)"
      using append_entities_one_to_many [of ?f s ?c R "\<lambda>_. []"] k1 rcn ok by simp
    then show ?thesis
      unfolding key using k1 by (simp add: Let_def)
  qed
  have "fetch s ?f = (append_entities s ?f (map EntityRow R), execute s)"
    using rel k by (simp add: fetch_def)
  with app have "fetch s ?f =
      (Inr (?f\<lparr>parent_dict := \<lambda>v.
           let matching = filter (\<lambda>i. column_value s i ?c = v) R
           in if k = ManyToOneFetcher
              then (if matching = [] then PNone else PRef (last matching))
              else PList (map PRef matching)\<rparr>), execute s)"
    by simp
  moreover have "holds s (InList ?c ?vs) i =
        (column_value s i ?c \<noteq> PNone \<and> column_value s i ?c \<in> lv ` set (entities p))"
    by (simp add: sql_in_def)
  ultimately show ?thesis
    using lvl cond unfolding R_def by simp
qed

theorem fetch_matching_rows_witness:
  "condition example_session
     (Fetcher OneToManyFetcher
        \<lparr>property = User_phones, entities = [PRef 1, PRef 2], populate_backrefs = False\<rparr>)
     = Inr (InList ''user_id'' [PInt 1, PInt 2])
   \<and> (\<exists>f'. fetch example_session
         (Fetcher OneToManyFetcher
            \<lparr>property = User_phones, entities = [PRef 1, PRef 2], populate_backrefs = False\<rparr>)
         = (Inr f', execute example_session)
       \<and> parent_dict f' (PInt 1) = PList [PRef 11, PRef 12]
       \<and> parent_dict f' (PInt 2) = PList [])"
proof -
  let ?p = "\<lparr>property = User_phones, entities = [PRef 1, PRef 2], populate_backrefs = False\<rparr>"
  let ?lv = "\<lambda>e. if e = PRef 1 then PInt 1 else PInt 2"
  have k: "OneToManyFetcher \<noteq> ManyToManyFetcher" by simp
  have es: "entities ?p = PRef 1 # [PRef 2]" by simp
  have lc: "local_columns (property ?p) = user_id_column # []"
    and rc: "remote_side (property ?p) = phone_user_id_column # []"
    by (simp_all add: User_phones_def)
  have h: "\<forall>e \<in> set (entities ?p).
      getattr_entity example_session e (name user_id_column) = Inr (?lv e)
      \<and> hashable (?lv e) = Inr (?lv e)"
    by (simp add: example_defs getattr_entity_def hashable_def)
  have c: "class_attrs example_session (model ?p) (name phone_user_id_column)
      = Some (ColumnProperty phone_user_id_column)"
    by (simp add: example_defs model_def)
  have r: "column_value example_session 11 ''user_id'' = PInt 1"
    "column_value example_session 12 ''user_id'' = PInt 1"
    "column_value example_session 13 ''user_id'' = PNone"
    "rows example_session ''Phone'' = [11, 12, 13]"
    by (simp_all add: column_value_def example_session_def example_entities_def)
  have n: "name phone_user_id_column = ''user_id''" "model ?p = ''Phone''"
    "map ?lv (entities ?p) = [PInt 1, PInt 2]"
    by (simp_all add: phone_user_id_column_def model_def User_phones_def)
  from fetch_matching_rows [OF k es lc rc c h, of 0]
  obtain f' where cnd: "condition example_session (Fetcher OneToManyFetcher ?p)
        = Inr (InList (name phone_user_id_column) (map ?lv (entities ?p)))"
    and f: "fetch example_session (Fetcher OneToManyFetcher ?p)
        = (Inr f', execute example_session)"
    and pd: "\<forall>v. parent_dict f' v =
        (let matching = filter
               (\<lambda>i. column_value example_session i (name phone_user_id_column) = v)
               (filter (holds example_session
                   (InList (name phone_user_id_column) (map ?lv (entities ?p))))
                  (rows example_session (model ?p)))
         in if OneToManyFetcher = ManyToOneFetcher
            then (if matching = [] then PNone else PRef (last matching))
            else PList (map PRef matching))"
    by blast
  have "parent_dict f' (PInt 1) = PList [PRef 11, PRef 12]"
    and "parent_dict f' (PInt 2) = PList []"
    by (simp_all add: pd n r sql_in_def model_def User_phones_def)
  with cnd f show ?thesis
    unfolding n by blast
qed

text \<open>
  C1 as the specification states it fails for a path with a secondary table: the
  fetcher of \<open>User.groups\<close> is the many-to-many one, whose \<open>condition\<close> looks the
  association column \<open>user_id\<close> up on the related class \<open>Group\<close> and raises
  \<open>AttributeError\<close>; its \<open>related_entities\<close> does not use \<open>condition\<close>.
\<close>

theorem condition_many_to_many_raises:
  "path_fetcher \<lparr>property = User_groups, entities = [PRef 1, PRef 2], populate_backrefs = False\<rparr>
     = Fetcher ManyToManyFetcher
         \<lparr>property = User_groups, entities = [PRef 1, PRef 2], populate_backrefs = False\<rparr>
   \<and> condition example_session
       (Fetcher ManyToManyFetcher
          \<lparr>property = User_groups, entities = [PRef 1, PRef 2], populate_backrefs = False\<rparr>)
     = Inl AttributeError"
  by (simp add: path_fetcher_def fetcher_class_def condition_def remote_column_name_def
      bindE_def parent_table_def parent_model_def class_of_def getattr_class_def model_def
      example_defs)




text \<open>
  C3. Let \<open>fetch\<close> and then \<open>populate\<close> have returned on the fetcher, of any class, of
  a path whose relationship attribute is none of its local columns and not its own
  inverse. Then every entry of \<open>Path.entities\<close> is an entity whose relationship
  attribute is now in its instance dictionary, that is, set as loaded: it holds what
  \<open>parent_dict\<close> has under the entity's value of the local column. For an entity
  whose value is the key of no row of the query, this is the empty list for the
  to-many fetchers (one-to-many, many-to-many) and \<open>None\<close> for the many-to-one
  fetcher. No entity is left without the attribute.
\<close>

theorem populate_sets_every_entity:
  assumes "fetch s (Fetcher k p) = (Inr f', s1)" and "populate s1 f' = (None, s2)"
    and "\<forall>c \<in> set (local_columns (property p)). name c \<noteq> key (property p)"
    and "back_populates (property p) \<noteq> Some (key (property p))"
    and "e \<in> set (entities p)"
  shows "\<exists>i v rs c. e = PRef i \<and> local_values s (Fetcher k p) e = Inr v
     \<and> related_entities s (Fetcher k p) = Inr rs
     \<and> remote_column_name s (Fetcher k p) = Inr (Some c)
     \<and> dict (identity_map s2 i) (key (property p)) = Some (parent_dict f' v)
     \<and> ((\<forall>r \<in> set rs. row_key s c r \<noteq> v) \<longrightarrow>
          dict (identity_map s2 i) (key (property p))
            = Some (if k = ManyToOneFetcher then PNone else PList []))"
proof -
  let ?f = "Fetcher k p"
  let ?key = "key (property p)"
  from assms(1) obtain rs c where rel: "related_entities s ?f = Inr rs"
    and rcn: "remote_column_name s ?f = Inr (Some c)"
    and s1: "s1 = execute s" and kf: "kind f' = k" and pf: "path f' = p"
    and fr: "\<And>v. \<forall>r \<in> set rs. row_key s c r \<noteq> v \<Longrightarrow> parent_dict f' v = parent_dict ?f v"
    by (auto elim!: fetch_Inr)
  from assms(2) pf obtain s1' where pe: "populate_entities f' (entities p) s1 = (None, s1')"
    and sb: "same_but (back_populates (property p)) s1' s2"
    by (auto elim!: populate_None)
  have "entities p \<noteq> []" using assms(5) by auto
  with pe have "local_columns (property (path f')) \<noteq> []"
    using populate_entities_no_local_column [of f' "entities p" s1 s1'] by blast
  then obtain lc lcs where lc: "local_columns (property (path f')) = lc # lcs"
    by (cases "local_columns (property (path f'))") auto
  then have ne: "name lc \<noteq> key (property (path f'))"
    using assms(3) pf by simp
  from populate_entities_effect [OF _ lc ne, of "entities p" s1 s1'] pe pf
  have ent: "\<forall>x \<in> set (entities p). \<exists>j. x = PRef j"
    and eff: "\<forall>j. PRef j \<in> set (entities p) \<longrightarrow>
        (\<exists>v. getattr_entity s1 (PRef j) (name lc) = Inr v
           \<and> dict (identity_map s1' j) ?key = Some (parent_dict f' v))"
    by (simp_all split: if_splits)
  from ent assms(5) obtain i where e: "e = PRef i" by blast
  with eff assms(5) obtain v where g: "getattr_entity s1 (PRef i) (name lc) = Inr v"
    and d: "dict (identity_map s1' i) ?key = Some (parent_dict f' v)"
    by blast
  have "getattr_entity s1 (PRef i) (name lc) = getattr_entity s (PRef i) (name lc)"
    unfolding s1 by (rule getattr_entity_same_but [of None]) simp_all
  with g lc pf e have lv: "local_values s ?f e = Inr v"
    by (simp add: local_values_def)
  have d2: "dict (identity_map s2 i) ?key = Some (parent_dict f' v)"
    using sb d assms(4) by (auto simp: same_but_def)
  have "parent_dict f' v = (if k = ManyToOneFetcher then PNone else PList [])"
    if "\<forall>r \<in> set rs. row_key s c r \<noteq> v"
    using fr [OF that] by (cases k) simp_all
  with e lv rel rcn d2 show ?thesis by auto
qed

theorem populate_sets_every_entity_witness:
  "\<exists>f' s2.
     fetch example_session
       (Fetcher OneToManyFetcher
          \<lparr>property = User_owned_phones, entities = [PRef 1, PRef 2],
           populate_backrefs = False\<rparr>)
       = (Inr f', execute example_session)
     \<and> populate (execute example_session) f' = (None, s2)
     \<and> dict (identity_map example_session 1) ''owned_phones'' = None
     \<and> dict (identity_map s2 1) ''owned_phones'' = Some (PList [])
     \<and> dict (identity_map s2 2) ''owned_phones'' = Some (PList [PRef 11, PRef 13])"
proof -
  let ?p = "\<lparr>property = User_owned_phones, entities = [PRef 1, PRef 2],
             populate_backrefs = False\<rparr>"
  let ?f = "Fetcher OneToManyFetcher ?p"
  let ?lv = "\<lambda>e. if e = PRef 1 then PInt 1 else PInt 2"
  have k: "OneToManyFetcher \<noteq> ManyToManyFetcher" by simp
  have es: "entities ?p = PRef 1 # [PRef 2]" by simp
  have lc: "local_columns (property ?p) = user_id_column # []"
    and rc: "remote_side (property ?p) = phone_owner_id_column # []"
    by (simp_all add: User_owned_phones_def)
  have h: "\<forall>e \<in> set (entities ?p).
      getattr_entity example_session e (name user_id_column) = Inr (?lv e)
      \<and> hashable (?lv e) = Inr (?lv e)"
    by (simp add: example_defs getattr_entity_def hashable_def)
  have c: "class_attrs example_session (model ?p) (name phone_owner_id_column)
      = Some (ColumnProperty phone_owner_id_column)"
    by (simp add: example_defs model_def)
  have r: "column_value example_session 11 ''owner_id'' = PInt 2"
    "column_value example_session 12 ''owner_id'' = PNone"
    "column_value example_session 13 ''owner_id'' = PInt 2"
    "rows example_session ''Phone'' = [11, 12, 13]"
    by (simp_all add: column_value_def example_session_def example_entities_def)
  have n: "name phone_owner_id_column = ''owner_id''" "model ?p = ''Phone''"
    "map ?lv (entities ?p) = [PInt 1, PInt 2]"
    by (simp_all add: phone_owner_id_column_def model_def User_owned_phones_def)
  from fetch_matching_rows [OF k es lc rc c h, of 0]
  obtain f' where cnd: "condition example_session ?f
        = Inr (InList (name phone_owner_id_column) (map ?lv (entities ?p)))"
    and f: "fetch example_session ?f = (Inr f', execute example_session)"
    and pf: "path f' = ?p"
    and pd: "\<forall>v. parent_dict f' v =
        (let matching = filter
               (\<lambda>i. column_value example_session i (name phone_owner_id_column) = v)
               (filter (holds example_session
                   (InList (name phone_owner_id_column) (map ?lv (entities ?p))))
                  (rows example_session (model ?p)))
         in if OneToManyFetcher = ManyToOneFetcher
            then (if matching = [] then PNone else PRef (last matching))
            else PList (map PRef matching))"
    by blast
  have pd1: "parent_dict f' (PInt 1) = PList []"
    and pd2: "parent_dict f' (PInt 2) = PList [PRef 11, PRef 13]"
    by (simp_all add: pd n r sql_in_def model_def User_owned_phones_def)
  obtain s2 where p: "populate (execute example_session) f' = (None, s2)"
    and d2: "dict (identity_map s2 2) ''owned_phones'' = Some (PList [PRef 11, PRef 13])"
    by (simp add: populate_def pf pd1 pd2 local_values_def bindE_def getattr_entity_def
        hashable_def set_committed_value_def execute_def example_defs)
  have h3: "\<forall>c \<in> set (local_columns (property ?p)). name c \<noteq> key (property ?p)"
    and h4: "back_populates (property ?p) \<noteq> Some (key (property ?p))"
    by (simp_all add: User_owned_phones_def user_id_column_def)
  have h5: "PRef 1 \<in> set (entities ?p)" by simp
  from populate_sets_every_entity [OF f p h3 h4 h5]
  obtain i v rs c where i: "PRef (1::nat) = PRef i"
    and v: "local_values example_session ?f (PRef 1) = Inr v"
    and rs: "related_entities example_session ?f = Inr rs"
    and cc: "remote_column_name example_session ?f = Inr (Some c)"
    and imp: "(\<forall>r \<in> set rs. row_key example_session c r \<noteq> v) \<longrightarrow>
          dict (identity_map s2 i) (key (property ?p))
            = Some (if OneToManyFetcher = ManyToOneFetcher then PNone else PList [])"
    by blast
  have "v = PInt 1"
    using v by (simp add: local_values_def getattr_entity_def example_defs)
  moreover have "c = ''owner_id''"
    using cc by (simp add: remote_column_name_def User_owned_phones_def phone_owner_id_column_def)
  moreover have "rs = [EntityRow 11, EntityRow 13]"
    using rs cnd by (simp add: related_entities_def bindE_def path_session_def n r sql_in_def
        model_def User_owned_phones_def)
  ultimately have "dict (identity_map s2 1) ''owned_phones'' = Some (PList [])"
    using imp i by (simp add: row_key_def r User_owned_phones_def)
  moreover have "dict (identity_map example_session 1) ''owned_phones'' = None"
    by (simp add: example_session_def example_entities_def)
  ultimately show ?thesis
    using f p d2 by blast
qed

text \<open>
  C4, as the code has it. Let two sibling fetchers, neither of them the many-to-many
  one and neither with backref population, have paths to the same related class
  under different relationship attributes, each path with a non-empty entity list
  whose entries are entities that have a hashable value \<open>lva e\<close> (\<open>lvb e\<close>) of the
  first local column and whose class maps the relationship attribute; let the first
  remote column of each be a column of the related class, let every row of the
  related class have a hashable value of both remote columns, and let no relationship
  attribute be named like a local column. Then \<open>CompositeFetcher\<close> accepts the two and
  its condition is the \<open>or_\<close> of the siblings' own conditions. Its \<open>fetch\<close> executes one
  query and its \<open>populate\<close> none, and both return; \<open>fetch\<close> and \<open>populate\<close> of each
  sibling alone return as well. After the composite's \<open>populate\<close> every parent entity
  holds under each sibling's relationship attribute the value that it holds after
  \<open>fetch\<close> and \<open>populate\<close> of that sibling alone: what the sibling alone has filed
  under the entity's local value. The rows that only the other sibling's condition
  has selected are filed under keys that are the local value of no entity.
\<close>

theorem composite_fetch_siblings:
  assumes ka: "ka \<noteq> ManyToManyFetcher" and kb: "kb \<noteq> ManyToManyFetcher"
    and m: "model pa = model pb"
    and esa: "entities pa = PRef ia # esa" and esb: "entities pb = PRef ib # esb"
    and nba: "\<not> populate_backrefs pa" and nbb: "\<not> populate_backrefs pb"
    and lca: "local_columns (property pa) = lca # lcsa"
    and lcb: "local_columns (property pb) = lcb # lcsb"
    and rca: "remote_side (property pa) = rca # rcsa"
    and rcb: "remote_side (property pb) = rcb # rcsb"
    and cola: "class_attrs s (model pa) (name rca) = Some (ColumnProperty cola)"
    and colb: "class_attrs s (model pb) (name rcb) = Some (ColumnProperty colb)"
    and lva: "\<forall>e \<in> set (entities pa).
        getattr_entity s e (name lca) = Inr (lva e) \<and> hashable (lva e) = Inr (lva e)
        \<and> (\<exists>j. e = PRef j
              \<and> class_attrs s (class_name (identity_map s j)) (key (property pa)) \<noteq> None)"
    and lvb: "\<forall>e \<in> set (entities pb).
        getattr_entity s e (name lcb) = Inr (lvb e) \<and> hashable (lvb e) = Inr (lvb e)
        \<and> (\<exists>j. e = PRef j
              \<and> class_attrs s (class_name (identity_map s j)) (key (property pb)) \<noteq> None)"
    and rows: "\<forall>i \<in> set (rows s (model pa)).
        (\<exists>v. getattr_entity s (PRef i) (name rca) = Inr v \<and> hashable v = Inr v)
        \<and> (\<exists>v. getattr_entity s (PRef i) (name rcb) = Inr v \<and> hashable v = Inr v)"
    and nea: "name lca \<noteq> key (property pa)" and neb: "name lcb \<noteq> key (property pb)"
    and neab: "name lcb \<noteq> key (property pa)"
    and kab: "key (property pa) \<noteq> key (property pb)"
  shows "CompositeFetcher [Fetcher ka pa, Fetcher kb pb] = Inr [Fetcher ka pa, Fetcher kb pb]
    \<and> condition s (Fetcher ka pa) = Inr (InList (name rca) (map lva (entities pa)))
    \<and> condition s (Fetcher kb pb) = Inr (InList (name rcb) (map lvb (entities pb)))
    \<and> composite_condition s [Fetcher ka pa, Fetcher kb pb] =
        Inr (OrList [InList (name rca) (map lva (entities pa)),
                     InList (name rcb) (map lvb (entities pb))])
    \<and> (\<exists>fa' fb' s2 fa'' sa fb'' sb.
          composite_fetch s [Fetcher ka pa, Fetcher kb pb] = (Inr [fa', fb'], execute s)
        \<and> composite_populate [fa', fb'] (execute s) = (None, s2)
        \<and> query_count s2 = Suc (query_count s)
        \<and> fetch s (Fetcher ka pa) = (Inr fa'', execute s)
        \<and> populate (execute s) fa'' = (None, sa)
        \<and> fetch s (Fetcher kb pb) = (Inr fb'', execute s)
        \<and> populate (execute s) fb'' = (None, sb)
        \<and> (\<forall>j. PRef j \<in> set (entities pa) \<longrightarrow>
              dict (identity_map s2 j) (key (property pa))
                = Some (parent_dict fa'' (lva (PRef j)))
              \<and> dict (identity_map sa j) (key (property pa))
                = Some (parent_dict fa'' (lva (PRef j))))
        \<and> (\<forall>j. PRef j \<in> set (entities pb) \<longrightarrow>
              dict (identity_map s2 j) (key (property pb))
                = Some (parent_dict fb'' (lvb (PRef j)))
              \<and> dict (identity_map sb j) (key (property pb))
                = Some (parent_dict fb'' (lvb (PRef j)))))"
proof -
  let ?fa = "Fetcher ka pa" and ?fb = "Fetcher kb pb"
  let ?E = "execute s"
  let ?ka = "key (property pa)" and ?kb = "key (property pb)"
  have lva': "\<forall>e \<in> set (entities pa). getattr_entity s e (name lca) = Inr (lva e)"
    and lvb': "\<forall>e \<in> set (entities pb). getattr_entity s e (name lcb) = Inr (lvb e)"
    using lva lvb by simp_all
  note ca = condition_in_list [OF ka lca rca cola lva']
  note cb = condition_in_list [OF kb lcb rcb colb lvb']
  have c1: "CompositeFetcher [?fa, ?fb] = Inr [?fa, ?fb]"
    using m by (simp add: CompositeFetcher_def)
  have c2: "composite_condition s [?fa, ?fb] =
        Inr (OrList [InList (name rca) (map lva (entities pa)),
                     InList (name rcb) (map lvb (entities pb))])"
    using ca(2) cb(2) by (simp add: composite_condition_def bindE_def)
  from composite_agree [OF ka kb m esa esb lca lcb rca rcb cola colb lva' lvb' rows]
  obtain fa' fb' fa'' fb'' where
    cf: "composite_fetch s [?fa, ?fb] = (Inr [fa', fb'], ?E)"
    and fa: "fetch s ?fa = (Inr fa'', ?E)"
    and fb: "fetch s ?fb = (Inr fb'', ?E)"
    and pa': "path fa' = pa" and pa'': "path fa'' = pa"
    and pb': "path fb' = pb" and pb'': "path fb'' = pb"
    and da: "\<forall>e \<in> set (entities pa). parent_dict fa' (lva e) = parent_dict fa'' (lva e)"
    and db: "\<forall>e \<in> set (entities pb). parent_dict fb' (lvb e) = parent_dict fb'' (lvb e)"
    by blast
  have sE: "same_but None s ?E" by simp
  have lvaE: "\<forall>e \<in> set (entities pa).
        getattr_entity ?E e (name lca) = Inr (lva e) \<and> hashable (lva e) = Inr (lva e)
        \<and> (\<exists>j. e = PRef j \<and> class_attrs ?E (class_name (identity_map ?E j)) ?ka \<noteq> None)"
    by (rule hyps_same_but [OF sE _ lva]) simp
  have lvbE: "\<forall>e \<in> set (entities pb).
        getattr_entity ?E e (name lcb) = Inr (lvb e) \<and> hashable (lvb e) = Inr (lvb e)
        \<and> (\<exists>j. e = PRef j \<and> class_attrs ?E (class_name (identity_map ?E j)) ?kb \<noteq> None)"
    by (rule hyps_same_but [OF sE _ lvb]) simp
  from populate_sets [OF pa' nba lca nea lvaE]
  obtain t where t1: "populate ?E fa' = (None, t)" and t2: "same_but (Some ?ka) ?E t"
    and t3: "query_count t = query_count ?E"
    and t4: "\<forall>j. PRef j \<in> set (entities pa) \<longrightarrow>
           dict (identity_map t j) ?ka = Some (parent_dict fa' (lva (PRef j)))"
    by blast
  have lvbt: "\<forall>e \<in> set (entities pb).
        getattr_entity t e (name lcb) = Inr (lvb e) \<and> hashable (lvb e) = Inr (lvb e)
        \<and> (\<exists>j. e = PRef j \<and> class_attrs t (class_name (identity_map t j)) ?kb \<noteq> None)"
    using neab by (intro hyps_same_but [OF t2 _ lvbE]) simp
  from populate_sets [OF pb' nbb lcb neb lvbt]
  obtain s2 where u1: "populate t fb' = (None, s2)" and u2: "same_but (Some ?kb) t s2"
    and u3: "query_count s2 = query_count t"
    and u4: "\<forall>j. PRef j \<in> set (entities pb) \<longrightarrow>
           dict (identity_map s2 j) ?kb = Some (parent_dict fb' (lvb (PRef j)))"
    by blast
  from populate_sets [OF pa'' nba lca nea lvaE]
  obtain sa where v1: "populate ?E fa'' = (None, sa)"
    and v4: "\<forall>j. PRef j \<in> set (entities pa) \<longrightarrow>
           dict (identity_map sa j) ?ka = Some (parent_dict fa'' (lva (PRef j)))"
    by blast
  from populate_sets [OF pb'' nbb lcb neb lvbE]
  obtain sb where w1: "populate ?E fb'' = (None, sb)"
    and w4: "\<forall>j. PRef j \<in> set (entities pb) \<longrightarrow>
           dict (identity_map sb j) ?kb = Some (parent_dict fb'' (lvb (PRef j)))"
    by blast
  have cp: "composite_populate [fa', fb'] ?E = (None, s2)"
    using t1 u1 by simp
  have qc: "query_count s2 = Suc (query_count s)"
    using u3 t3 by (simp add: execute_def)
  have keep: "dict (identity_map s2 j) ?ka = dict (identity_map t j) ?ka" for j
    using u2 kab by (simp add: same_but_def)
  have ra: "\<forall>j. PRef j \<in> set (entities pa) \<longrightarrow>
              dict (identity_map s2 j) ?ka = Some (parent_dict fa'' (lva (PRef j)))
              \<and> dict (identity_map sa j) ?ka = Some (parent_dict fa'' (lva (PRef j)))"
    using t4 v4 da keep by simp
  have rb: "\<forall>j. PRef j \<in> set (entities pb) \<longrightarrow>
              dict (identity_map s2 j) ?kb = Some (parent_dict fb'' (lvb (PRef j)))
              \<and> dict (identity_map sb j) ?kb = Some (parent_dict fb'' (lvb (PRef j)))"
    using u4 w4 db by simp
  from c1 ca(2) cb(2) c2 cf cp qc fa v1 fb w1 ra rb show ?thesis by blast
qed

theorem composite_fetch_siblings_witness:
  "\<exists>fa' fb' s2 fa'' sa fb'' sb.
     composite_fetch example_session
       [Fetcher OneToManyFetcher
          \<lparr>property = User_phones, entities = [PRef 1], populate_backrefs = False\<rparr>,
        Fetcher OneToManyFetcher
          \<lparr>property = User_owned_phones, entities = [PRef 1], populate_backrefs = False\<rparr>]
       = (Inr [fa', fb'], execute example_session)
     \<and> composite_populate [fa', fb'] (execute example_session) = (None, s2)
     \<and> query_count s2 = 1
     \<and> fetch example_session
         (Fetcher OneToManyFetcher
            \<lparr>property = User_phones, entities = [PRef 1], populate_backrefs = False\<rparr>)
         = (Inr fa'', execute example_session)
     \<and> populate (execute example_session) fa'' = (None, sa)
     \<and> fetch example_session
         (Fetcher OneToManyFetcher
            \<lparr>property = User_owned_phones, entities = [PRef 1], populate_backrefs = False\<rparr>)
         = (Inr fb'', execute example_session)
     \<and> populate (execute example_session) fb'' = (None, sb)
     \<and> dict (identity_map s2 1) ''phones'' = Some (PList [PRef 11, PRef 12])
     \<and> dict (identity_map sa 1) ''phones'' = Some (PList [PRef 11, PRef 12])
     \<and> dict (identity_map s2 1) ''owned_phones'' = Some (PList [])
     \<and> dict (identity_map sb 1) ''owned_phones'' = Some (PList [])"
proof -
  let ?pa = "\<lparr>property = User_phones, entities = [PRef 1], populate_backrefs = False\<rparr>"
  let ?pb = "\<lparr>property = User_owned_phones, entities = [PRef 1], populate_backrefs = False\<rparr>"
  let ?fa = "Fetcher OneToManyFetcher ?pa" and ?fb = "Fetcher OneToManyFetcher ?pb"
  let ?lv = "\<lambda>e :: pyval. PInt 1"
  have k: "OneToManyFetcher \<noteq> ManyToManyFetcher" by simp
  have m: "model ?pa = model ?pb"
    by (simp add: model_def User_phones_def User_owned_phones_def)
  have esa: "entities ?pa = PRef 1 # []" and esb: "entities ?pb = PRef 1 # []" by simp_all
  have nba: "\<not> populate_backrefs ?pa" and nbb: "\<not> populate_backrefs ?pb" by simp_all
  have lca: "local_columns (property ?pa) = user_id_column # []"
    and rca: "remote_side (property ?pa) = phone_user_id_column # []"
    by (simp_all add: User_phones_def)
  have lcb: "local_columns (property ?pb) = user_id_column # []"
    and rcb: "remote_side (property ?pb) = phone_owner_id_column # []"
    by (simp_all add: User_owned_phones_def)
  have cola: "class_attrs example_session (model ?pa) (name phone_user_id_column)
      = Some (ColumnProperty phone_user_id_column)"
    and colb: "class_attrs example_session (model ?pb) (name phone_owner_id_column)
      = Some (ColumnProperty phone_owner_id_column)"
    by (simp_all add: example_defs model_def)
  have lva: "\<forall>e \<in> set (entities ?pa).
      getattr_entity example_session e (name user_id_column) = Inr (?lv e)
      \<and> hashable (?lv e) = Inr (?lv e)
      \<and> (\<exists>j. e = PRef j
            \<and> class_attrs example_session (class_name (identity_map example_session j))
                 (key (property ?pa)) \<noteq> None)"
    and lvb: "\<forall>e \<in> set (entities ?pb).
      getattr_entity example_session e (name user_id_column) = Inr (?lv e)
      \<and> hashable (?lv e) = Inr (?lv e)
      \<and> (\<exists>j. e = PRef j
            \<and> class_attrs example_session (class_name (identity_map example_session j))
                 (key (property ?pb)) \<noteq> None)"
    by (simp_all add: example_defs getattr_entity_def hashable_def)
  have rows: "\<forall>i \<in> set (rows example_session (model ?pa)).
        (\<exists>v. getattr_entity example_session (PRef i) (name phone_user_id_column) = Inr v
            \<and> hashable v = Inr v)
        \<and> (\<exists>v. getattr_entity example_session (PRef i) (name phone_owner_id_column) = Inr v
            \<and> hashable v = Inr v)"
    by (simp add: example_defs model_def getattr_entity_def hashable_def)
  have nea: "name user_id_column \<noteq> key (property ?pa)"
    and neb: "name user_id_column \<noteq> key (property ?pb)"
    and kab: "key (property ?pa) \<noteq> key (property ?pb)"
    by (simp_all add: User_phones_def User_owned_phones_def user_id_column_def)
  have r: "column_value example_session 11 ''user_id'' = PInt 1"
    "column_value example_session 12 ''user_id'' = PInt 1"
    "column_value example_session 13 ''user_id'' = PNone"
    "column_value example_session 11 ''owner_id'' = PInt 2"
    "column_value example_session 12 ''owner_id'' = PNone"
    "column_value example_session 13 ''owner_id'' = PInt 2"
    "rows example_session ''Phone'' = [11, 12, 13]"
    by (simp_all add: column_value_def example_session_def example_entities_def)
  have g: "getattr_entity example_session (PRef 11) ''user_id'' = Inr (PInt 1)"
    "getattr_entity example_session (PRef 12) ''user_id'' = Inr (PInt 1)"
    "getattr_entity example_session (PRef (Suc 0)) ''id'' = Inr (PInt 1)"
    "class_attrs example_session ''Phone'' ''user_id'' = Some (ColumnProperty phone_user_id_column)"
    "class_attrs example_session ''Phone'' ''owner_id''
       = Some (ColumnProperty phone_owner_id_column)"
    by (simp_all add: getattr_entity_def example_session_def example_entities_def
        example_attrs_def)
  have Fa: "parent_dict f (PInt 1) = PList [PRef 11, PRef 12]"
    if "fetch example_session ?fa = (Inr f, execute example_session)" for f
    using that
    by (auto simp add: fetch_def related_entities_def path_session_def condition_def
        remote_column_name_def getattr_class_def local_values_list_def local_values_def
        model_def bindE_def sql_in_def r g append_entity_def hashable_def dict_append_def
        User_phones_def user_id_column_def phone_user_id_column_def)
  have Fb: "parent_dict f (PInt 1) = PList []"
    if "fetch example_session ?fb = (Inr f, execute example_session)" for f
    using that
    by (auto simp add: fetch_def related_entities_def path_session_def condition_def
        remote_column_name_def getattr_class_def local_values_list_def local_values_def
        model_def bindE_def sql_in_def r g append_entity_def hashable_def dict_append_def
        User_owned_phones_def user_id_column_def phone_owner_id_column_def)
  from composite_fetch_siblings
    [OF k k m esa esb nba nbb lca lcb rca rcb cola colb lva lvb rows nea neb nea kab]
  obtain fa' fb' s2 fa'' sa fb'' sb where
    c: "composite_fetch example_session [?fa, ?fb] = (Inr [fa', fb'], execute example_session)"
    and cp: "composite_populate [fa', fb'] (execute example_session) = (None, s2)"
    and qc: "query_count s2 = Suc (query_count example_session)"
    and fa: "fetch example_session ?fa = (Inr fa'', execute example_session)"
    and pa: "populate (execute example_session) fa'' = (None, sa)"
    and fb: "fetch example_session ?fb = (Inr fb'', execute example_session)"
    and pb: "populate (execute example_session) fb'' = (None, sb)"
    and va: "\<forall>j. PRef j \<in> set (entities ?pa) \<longrightarrow>
              dict (identity_map s2 j) (key (property ?pa))
                = Some (parent_dict fa'' (?lv (PRef j)))
              \<and> dict (identity_map sa j) (key (property ?pa))
                = Some (parent_dict fa'' (?lv (PRef j)))"
    and vb: "\<forall>j. PRef j \<in> set (entities ?pb) \<longrightarrow>
              dict (identity_map s2 j) (key (property ?pb))
                = Some (parent_dict fb'' (?lv (PRef j)))
              \<and> dict (identity_map sb j) (key (property ?pb))
                = Some (parent_dict fb'' (?lv (PRef j)))"
    by blast
  have "query_count s2 = 1"
    using qc by (simp add: example_session_def)
  moreover have "dict (identity_map s2 1) ''phones'' = Some (PList [PRef 11, PRef 12])"
    and "dict (identity_map sa 1) ''phones'' = Some (PList [PRef 11, PRef 12])"
    using va Fa [OF fa] by (simp_all add: User_phones_def)
  moreover have "dict (identity_map s2 1) ''owned_phones'' = Some (PList [])"
    and "dict (identity_map sb 1) ''owned_phones'' = Some (PList [])"
    using vb Fb [OF fb] by (simp_all add: User_owned_phones_def)
  ultimately show ?thesis
    using c cp fa pa fb pb by blast
qed

text \<open>
  C4 as the specification states it fails for siblings with a secondary table. The
  paths \<open>groups\<close> and \<open>managed_groups\<close> of a user both lead to \<open>Group\<close>, and
  \<open>CompositeFetcher\<close> accepts their fetchers, which are many-to-many ones. The
  composite's condition asks each sibling for its own condition, and that of \<open>groups\<close>
  looks the association column \<open>user_id\<close> up on \<open>Group\<close>: the composite raises
  \<open>AttributeError\<close> before any query and assigns nothing, while \<open>groups\<close> alone is
  fetched and populated with one query. It also fails with backref population for
  siblings without a secondary table: \<open>populate\<close> of the sibling \<open>phones\<close> raises
  \<open>TypeError\<close> at the first row of its query for the backrefs, which is a phone and
  not a pair, so that the composite never populates the sibling \<open>owned_phones\<close>, while
  \<open>owned_phones\<close> alone has set the attribute of every user before it raises the same
  error.
\<close>

theorem composite_many_to_many_raises:
  "parse_fetchers example_session [PRef 1, PRef 2]
       [Str ''groups'', Str ''managed_groups''] False
     = Inr [Fetcher ManyToManyFetcher
              \<lparr>property = User_groups, entities = [PRef 1, PRef 2], populate_backrefs = False\<rparr>,
            Fetcher ManyToManyFetcher
              \<lparr>property = User_managed_groups, entities = [PRef 1, PRef 2],
               populate_backrefs = False\<rparr>]
   \<and> model \<lparr>property = User_groups, entities = [PRef 1, PRef 2], populate_backrefs = False\<rparr>
     = model \<lparr>property = User_managed_groups, entities = [PRef 1, PRef 2],
               populate_backrefs = False\<rparr>
   \<and> batch_fetch example_session [PRef 1, PRef 2]
       [CompositePath [Str ''groups'', Str ''managed_groups'']]
     = (Some AttributeError, example_session)
   \<and> (\<exists>s'. batch_fetch example_session [PRef 1, PRef 2] [Str ''groups''] = (None, s')
         \<and> query_count s' = 1
         \<and> dict (identity_map s' 1) ''groups'' = Some (PList [PRef 21])
         \<and> dict (identity_map s' 2) ''groups'' = Some (PList [PRef 21]))
   \<and> (\<exists>s'. batch_fetch example_session [PRef 1, PRef 2]
             [with_backrefs (CompositePath [Str ''phones'', Str ''owned_phones''])]
           = (Some TypeError, s')
         \<and> dict (identity_map s' 2) ''owned_phones'' = None)
   \<and> (\<exists>s'. batch_fetch example_session [PRef 1, PRef 2] [with_backrefs (Str ''owned_phones'')]
           = (Some TypeError, s')
         \<and> dict (identity_map s' 2) ''owned_phones'' = Some (PList [PRef 11, PRef 13]))"
proof -
  have nodot: "CHR ''.'' \<notin> set ''groups''" "CHR ''.'' \<notin> set ''managed_groups''"
    by simp_all
  have fs: "parse_fetchers example_session [PRef 1, PRef 2]
       [Str ''groups'', Str ''managed_groups''] False
     = Inr [Fetcher ManyToManyFetcher
              \<lparr>property = User_groups, entities = [PRef 1, PRef 2], populate_backrefs = False\<rparr>,
            Fetcher ManyToManyFetcher
              \<lparr>property = User_managed_groups, entities = [PRef 1, PRef 2],
               populate_backrefs = False\<rparr>]"
    by (simp add: parse_plain [OF nodot(1)] parse_plain [OF nodot(2)] bindE_def getattr_class_def
        class_of_def Path_def path_fetcher_def fetcher_class_def example_session_def
        example_entities_def example_attrs_def User_groups_def User_managed_groups_def)
  have m: "model \<lparr>property = User_groups, entities = [PRef 1, PRef 2], populate_backrefs = False\<rparr>
     = model \<lparr>property = User_managed_groups, entities = [PRef 1, PRef 2],
               populate_backrefs = False\<rparr>"
    by (simp add: model_def User_groups_def User_managed_groups_def)
  have c: "condition example_session
       (Fetcher ManyToManyFetcher
          \<lparr>property = User_groups, entities = [PRef 1, PRef 2], populate_backrefs = False\<rparr>)
     = Inl AttributeError"
    by (simp add: condition_def remote_column_name_def
        bindE_def parent_table_def parent_model_def class_of_def getattr_class_def model_def
        example_defs)
  have composite: "batch_fetch example_session [PRef 1, PRef 2]
       [CompositePath [Str ''groups'', Str ''managed_groups'']]
     = (Some AttributeError, example_session)"
    by (simp add: batch_fetch_def FetchingCoordinator_def fs bindE_def CompositeFetcher_def m
        composite_fetch_def composite_related_entities_def composite_session_def
        path_session_def composite_model_def composite_condition_def c
        del: parse_fetchers.simps One_nat_def)
  have alone: "\<exists>s'. batch_fetch example_session [PRef 1, PRef 2] [Str ''groups''] = (None, s')
     \<and> query_count s' = 1
     \<and> dict (identity_map s' 1) ''groups'' = Some (PList [PRef 21])
     \<and> dict (identity_map s' 2) ''groups'' = Some (PList [PRef 21])"
    by (simp add: batch_fetch_def FetchingCoordinator_def parse_plain [OF nodot(1)] bindE_def
        getattr_class_def class_of_def Path_def path_fetcher_def fetcher_class_def fetch_def
        related_entities_def path_session_def remote_column_name_def parent_table_def
        parent_model_def local_values_list_def local_values_def getattr_entity_def
        secondary_join_def secondary_value_def sql_in_def sql_eq_def column_value_def
        hashable_def dict_append_def populate_def set_committed_value_def execute_def
        Fetcher_def example_defs)
  have nodot2: "CHR ''.'' \<notin> set ''phones''" "CHR ''.'' \<notin> set ''owned_phones''"
    by simp_all
  have backrefs_composite: "\<exists>s'. batch_fetch example_session [PRef 1, PRef 2]
         [with_backrefs (CompositePath [Str ''phones'', Str ''owned_phones''])]
       = (Some TypeError, s')
     \<and> dict (identity_map s' 2) ''owned_phones'' = None"
    by (simp add: batch_fetch_def FetchingCoordinator_def parse_plain [OF nodot2(1)]
        parse_plain [OF nodot2(2)] bindE_def CompositeFetcher_def
        composite_fetch_def composite_related_entities_def composite_session_def
        composite_model_def composite_condition_def getattr_row_def
        getattr_class_def class_of_def Path_def path_fetcher_def fetcher_class_def
        related_entities_def path_session_def remote_column_name_def condition_def model_def
        local_values_list_def local_values_def getattr_entity_def
        sql_in_def column_value_def append_entity_def
        hashable_def dict_append_def populate_def set_committed_value_def execute_def
        populate_backrefs_method_def unpack_def Fetcher_def example_defs)
  have backrefs_alone: "\<exists>s'. batch_fetch example_session [PRef 1, PRef 2] [with_backrefs (Str ''owned_phones'')]
       = (Some TypeError, s')
     \<and> dict (identity_map s' 2) ''owned_phones'' = Some (PList [PRef 11, PRef 13])"
    by (simp add: batch_fetch_def FetchingCoordinator_def parse_plain [OF nodot2(2)] bindE_def
        getattr_class_def class_of_def Path_def path_fetcher_def fetcher_class_def fetch_def
        related_entities_def path_session_def remote_column_name_def condition_def model_def
        local_values_list_def local_values_def getattr_entity_def
        sql_in_def column_value_def append_entity_def
        hashable_def dict_append_def populate_def set_committed_value_def execute_def
        populate_backrefs_method_def unpack_def Fetcher_def example_defs)
  from fs m composite alone backrefs_composite backrefs_alone show ?thesis by blast
qed




end
